theory Spec2Isabelle
  imports Complex_Main "HOL-Library.Sublist"
begin

section \<open>Python strings\<close>

text \<open>
  A Python \<^verbatim>\<open>str\<close> is a sequence of Unicode code points, so the model is a list of
  code points (\<open>nat\<close>), not a list of bytes: the unit catalogue of
  \<^verbatim>\<open>extract_unit_from_range\<close> holds the Greek letter mu, U+03BC = 956, which is one
  character of a Python string. \<open>ascii\<close> embeds an ASCII literal.
\<close>

type_synonym ustr = "nat list"

definition ascii :: "string \<Rightarrow> ustr" where
  "ascii s = map of_char s"

subsection \<open>Character classes of the Python runtime\<close>

text \<open>
  The classes that \<^verbatim>\<open>str.strip\<close>, \<^verbatim>\<open>str.isdigit\<close>, \<^verbatim>\<open>str.upper\<close> and the regular
  expression escapes \<^verbatim>\<open>\d\<close> and \<^verbatim>\<open>\b\<close> consult are tables of the Python runtime, not of
  this repository. They are written out below as CPython 3.11 has them (Unicode 14.0.0), as
  ascending lists of inclusive code point ranges, and are looked up by a scan that stops at
  the first range starting beyond the code point.
\<close>

fun in_ranges :: "nat \<Rightarrow> (nat \<times> nat) list \<Rightarrow> bool" where
  "in_ranges c [] = False"
| "in_ranges c ((lo, hi) # rs) =
     (if c < lo then False else if c \<le> hi then True else in_ranges c rs)"

text \<open>\<^verbatim>\<open>str.isspace\<close> of one character: what \<^verbatim>\<open>str.strip()\<close> removes.\<close>

definition space_ranges :: "(nat \<times> nat) list" where
  "space_ranges = [
     (9, 13), (28, 32), (133, 133), (160, 160), (5760, 5760), (8192, 8202), (8232, 8233), (8239, 8239),
     (8287, 8287), (12288, 12288)]"

definition isspace :: "nat \<Rightarrow> bool" where
  "isspace c = in_ranges c space_ranges"

text \<open>
  \<^verbatim>\<open>str.isdecimal\<close> of one character (general category Nd): what \<^verbatim>\<open>\d\<close> matches in a
  \<^verbatim>\<open>str\<close> pattern, and what \<^verbatim>\<open>float\<close> and \<^verbatim>\<open>int\<close> read as a digit. Every range is
  a run of the digits 0 to 9 in order, so the value of a digit is its offset modulo 10.
\<close>

definition decimal_ranges :: "(nat \<times> nat) list" where
  "decimal_ranges = [
     (48, 57), (1632, 1641), (1776, 1785), (1984, 1993), (2406, 2415), (2534, 2543), (2662, 2671), (2790, 2799),
     (2918, 2927), (3046, 3055), (3174, 3183), (3302, 3311), (3430, 3439), (3558, 3567), (3664, 3673), (3792, 3801),
     (3872, 3881), (4160, 4169), (4240, 4249), (6112, 6121), (6160, 6169), (6470, 6479), (6608, 6617), (6784, 6793),
     (6800, 6809), (6992, 7001), (7088, 7097), (7232, 7241), (7248, 7257), (42528, 42537), (43216, 43225), (43264, 43273),
     (43472, 43481), (43504, 43513), (43600, 43609), (44016, 44025), (65296, 65305), (66720, 66729), (68912, 68921), (69734, 69743),
     (69872, 69881), (69942, 69951), (70096, 70105), (70384, 70393), (70736, 70745), (70864, 70873), (71248, 71257), (71360, 71369),
     (71472, 71481), (71904, 71913), (72016, 72025), (72784, 72793), (73040, 73049), (73120, 73129), (92768, 92777), (92864, 92873),
     (93008, 93017), (120782, 120831), (123200, 123209), (123632, 123641), (125264, 125273), (130032, 130041)]"

definition isdecimal :: "nat \<Rightarrow> bool" where
  "isdecimal c = in_ranges c decimal_ranges"

fun decimal_in :: "nat \<Rightarrow> (nat \<times> nat) list \<Rightarrow> nat" where
  "decimal_in c [] = 0"
| "decimal_in c ((lo, hi) # rs) =
     (if c < lo then 0 else if c \<le> hi then (c - lo) mod 10 else decimal_in c rs)"

definition decimal_value :: "nat \<Rightarrow> nat" where
  "decimal_value c = decimal_in c decimal_ranges"

text \<open>
  \<^verbatim>\<open>str.isdigit\<close> of one character: the decimal digits and the characters of numeric type
  Digit (superscripts, circled digits and the like).
\<close>

definition digit_ranges :: "(nat \<times> nat) list" where
  "digit_ranges = [
     (48, 57), (178, 179), (185, 185), (1632, 1641), (1776, 1785), (1984, 1993), (2406, 2415), (2534, 2543),
     (2662, 2671), (2790, 2799), (2918, 2927), (3046, 3055), (3174, 3183), (3302, 3311), (3430, 3439), (3558, 3567),
     (3664, 3673), (3792, 3801), (3872, 3881), (4160, 4169), (4240, 4249), (4969, 4977), (6112, 6121), (6160, 6169),
     (6470, 6479), (6608, 6618), (6784, 6793), (6800, 6809), (6992, 7001), (7088, 7097), (7232, 7241), (7248, 7257),
     (8304, 8304), (8308, 8313), (8320, 8329), (9312, 9320), (9332, 9340), (9352, 9360), (9450, 9450), (9461, 9469),
     (9471, 9471), (10102, 10110), (10112, 10120), (10122, 10130), (42528, 42537), (43216, 43225), (43264, 43273), (43472, 43481),
     (43504, 43513), (43600, 43609), (44016, 44025), (65296, 65305), (66720, 66729), (68160, 68163), (68912, 68921), (69216, 69224),
     (69714, 69722), (69734, 69743), (69872, 69881), (69942, 69951), (70096, 70105), (70384, 70393), (70736, 70745), (70864, 70873),
     (71248, 71257), (71360, 71369), (71472, 71481), (71904, 71913), (72016, 72025), (72784, 72793), (73040, 73049), (73120, 73129),
     (92768, 92777), (92864, 92873), (93008, 93017), (120782, 120831), (123200, 123209), (123632, 123641), (125264, 125273), (127232, 127242),
     (130032, 130041)]"

definition isdigit_cp :: "nat \<Rightarrow> bool" where
  "isdigit_cp c = in_ranges c digit_ranges"

text \<open>
  The word characters of \<^verbatim>\<open>\w\<close> and \<^verbatim>\<open>\b\<close> in a \<^verbatim>\<open>str\<close> pattern: \<^verbatim>\<open>str.isalnum\<close>
  or the underscore.
\<close>

definition word_ranges_1 :: "(nat \<times> nat) list" where
  "word_ranges_1 = [
     (48, 57), (65, 90), (95, 95), (97, 122), (170, 170), (178, 179), (181, 181), (185, 186),
     (188, 190), (192, 214), (216, 246), (248, 705), (710, 721), (736, 740), (748, 748), (750, 750),
     (880, 884), (886, 887), (890, 893), (895, 895), (902, 902), (904, 906), (908, 908), (910, 929),
     (931, 1013), (1015, 1153), (1162, 1327), (1329, 1366), (1369, 1369), (1376, 1416), (1488, 1514), (1519, 1522),
     (1568, 1610), (1632, 1641), (1646, 1647), (1649, 1747), (1749, 1749), (1765, 1766), (1774, 1788), (1791, 1791),
     (1808, 1808), (1810, 1839), (1869, 1957), (1969, 1969), (1984, 2026), (2036, 2037), (2042, 2042), (2048, 2069),
     (2074, 2074), (2084, 2084), (2088, 2088), (2112, 2136), (2144, 2154), (2160, 2183), (2185, 2190), (2208, 2249),
     (2308, 2361), (2365, 2365), (2384, 2384), (2392, 2401), (2406, 2415), (2417, 2432), (2437, 2444), (2447, 2448),
     (2451, 2472), (2474, 2480), (2482, 2482), (2486, 2489), (2493, 2493), (2510, 2510), (2524, 2525), (2527, 2529),
     (2534, 2545), (2548, 2553), (2556, 2556), (2565, 2570), (2575, 2576), (2579, 2600), (2602, 2608), (2610, 2611),
     (2613, 2614), (2616, 2617), (2649, 2652), (2654, 2654), (2662, 2671), (2674, 2676), (2693, 2701), (2703, 2705),
     (2707, 2728), (2730, 2736), (2738, 2739), (2741, 2745), (2749, 2749), (2768, 2768), (2784, 2785), (2790, 2799),
     (2809, 2809), (2821, 2828), (2831, 2832), (2835, 2856), (2858, 2864), (2866, 2867), (2869, 2873), (2877, 2877),
     (2908, 2909), (2911, 2913), (2918, 2927), (2929, 2935), (2947, 2947), (2949, 2954), (2958, 2960), (2962, 2965),
     (2969, 2970), (2972, 2972), (2974, 2975), (2979, 2980), (2984, 2986), (2990, 3001), (3024, 3024), (3046, 3058),
     (3077, 3084), (3086, 3088), (3090, 3112), (3114, 3129), (3133, 3133), (3160, 3162), (3165, 3165), (3168, 3169)]"

definition word_ranges_2 :: "(nat \<times> nat) list" where
  "word_ranges_2 = [
     (3174, 3183), (3192, 3198), (3200, 3200), (3205, 3212), (3214, 3216), (3218, 3240), (3242, 3251), (3253, 3257),
     (3261, 3261), (3293, 3294), (3296, 3297), (3302, 3311), (3313, 3314), (3332, 3340), (3342, 3344), (3346, 3386),
     (3389, 3389), (3406, 3406), (3412, 3414), (3416, 3425), (3430, 3448), (3450, 3455), (3461, 3478), (3482, 3505),
     (3507, 3515), (3517, 3517), (3520, 3526), (3558, 3567), (3585, 3632), (3634, 3635), (3648, 3654), (3664, 3673),
     (3713, 3714), (3716, 3716), (3718, 3722), (3724, 3747), (3749, 3749), (3751, 3760), (3762, 3763), (3773, 3773),
     (3776, 3780), (3782, 3782), (3792, 3801), (3804, 3807), (3840, 3840), (3872, 3891), (3904, 3911), (3913, 3948),
     (3976, 3980), (4096, 4138), (4159, 4169), (4176, 4181), (4186, 4189), (4193, 4193), (4197, 4198), (4206, 4208),
     (4213, 4225), (4238, 4238), (4240, 4249), (4256, 4293), (4295, 4295), (4301, 4301), (4304, 4346), (4348, 4680),
     (4682, 4685), (4688, 4694), (4696, 4696), (4698, 4701), (4704, 4744), (4746, 4749), (4752, 4784), (4786, 4789),
     (4792, 4798), (4800, 4800), (4802, 4805), (4808, 4822), (4824, 4880), (4882, 4885), (4888, 4954), (4969, 4988),
     (4992, 5007), (5024, 5109), (5112, 5117), (5121, 5740), (5743, 5759), (5761, 5786), (5792, 5866), (5870, 5880),
     (5888, 5905), (5919, 5937), (5952, 5969), (5984, 5996), (5998, 6000), (6016, 6067), (6103, 6103), (6108, 6108),
     (6112, 6121), (6128, 6137), (6160, 6169), (6176, 6264), (6272, 6276), (6279, 6312), (6314, 6314), (6320, 6389),
     (6400, 6430), (6470, 6509), (6512, 6516), (6528, 6571), (6576, 6601), (6608, 6618), (6656, 6678), (6688, 6740),
     (6784, 6793), (6800, 6809), (6823, 6823), (6917, 6963), (6981, 6988), (6992, 7001), (7043, 7072), (7086, 7141),
     (7168, 7203), (7232, 7241), (7245, 7293), (7296, 7304), (7312, 7354), (7357, 7359), (7401, 7404), (7406, 7411)]"

definition word_ranges_3 :: "(nat \<times> nat) list" where
  "word_ranges_3 = [
     (7413, 7414), (7418, 7418), (7424, 7615), (7680, 7957), (7960, 7965), (7968, 8005), (8008, 8013), (8016, 8023),
     (8025, 8025), (8027, 8027), (8029, 8029), (8031, 8061), (8064, 8116), (8118, 8124), (8126, 8126), (8130, 8132),
     (8134, 8140), (8144, 8147), (8150, 8155), (8160, 8172), (8178, 8180), (8182, 8188), (8304, 8305), (8308, 8313),
     (8319, 8329), (8336, 8348), (8450, 8450), (8455, 8455), (8458, 8467), (8469, 8469), (8473, 8477), (8484, 8484),
     (8486, 8486), (8488, 8488), (8490, 8493), (8495, 8505), (8508, 8511), (8517, 8521), (8526, 8526), (8528, 8585),
     (9312, 9371), (9450, 9471), (10102, 10131), (11264, 11492), (11499, 11502), (11506, 11507), (11517, 11517), (11520, 11557),
     (11559, 11559), (11565, 11565), (11568, 11623), (11631, 11631), (11648, 11670), (11680, 11686), (11688, 11694), (11696, 11702),
     (11704, 11710), (11712, 11718), (11720, 11726), (11728, 11734), (11736, 11742), (11823, 11823), (12293, 12295), (12321, 12329),
     (12337, 12341), (12344, 12348), (12353, 12438), (12445, 12447), (12449, 12538), (12540, 12543), (12549, 12591), (12593, 12686),
     (12690, 12693), (12704, 12735), (12784, 12799), (12832, 12841), (12872, 12879), (12881, 12895), (12928, 12937), (12977, 12991),
     (13312, 19903), (19968, 42124), (42192, 42237), (42240, 42508), (42512, 42539), (42560, 42606), (42623, 42653), (42656, 42735),
     (42775, 42783), (42786, 42888), (42891, 42954), (42960, 42961), (42963, 42963), (42965, 42969), (42994, 43009), (43011, 43013),
     (43015, 43018), (43020, 43042), (43056, 43061), (43072, 43123), (43138, 43187), (43216, 43225), (43250, 43255), (43259, 43259),
     (43261, 43262), (43264, 43301), (43312, 43334), (43360, 43388), (43396, 43442), (43471, 43481), (43488, 43492), (43494, 43518),
     (43520, 43560), (43584, 43586), (43588, 43595), (43600, 43609), (43616, 43638), (43642, 43642), (43646, 43695), (43697, 43697),
     (43701, 43702), (43705, 43709), (43712, 43712), (43714, 43714), (43739, 43741), (43744, 43754), (43762, 43764), (43777, 43782)]"

definition word_ranges_4 :: "(nat \<times> nat) list" where
  "word_ranges_4 = [
     (43785, 43790), (43793, 43798), (43808, 43814), (43816, 43822), (43824, 43866), (43868, 43881), (43888, 44002), (44016, 44025),
     (44032, 55203), (55216, 55238), (55243, 55291), (63744, 64109), (64112, 64217), (64256, 64262), (64275, 64279), (64285, 64285),
     (64287, 64296), (64298, 64310), (64312, 64316), (64318, 64318), (64320, 64321), (64323, 64324), (64326, 64433), (64467, 64829),
     (64848, 64911), (64914, 64967), (65008, 65019), (65136, 65140), (65142, 65276), (65296, 65305), (65313, 65338), (65345, 65370),
     (65382, 65470), (65474, 65479), (65482, 65487), (65490, 65495), (65498, 65500), (65536, 65547), (65549, 65574), (65576, 65594),
     (65596, 65597), (65599, 65613), (65616, 65629), (65664, 65786), (65799, 65843), (65856, 65912), (65930, 65931), (66176, 66204),
     (66208, 66256), (66273, 66299), (66304, 66339), (66349, 66378), (66384, 66421), (66432, 66461), (66464, 66499), (66504, 66511),
     (66513, 66517), (66560, 66717), (66720, 66729), (66736, 66771), (66776, 66811), (66816, 66855), (66864, 66915), (66928, 66938),
     (66940, 66954), (66956, 66962), (66964, 66965), (66967, 66977), (66979, 66993), (66995, 67001), (67003, 67004), (67072, 67382),
     (67392, 67413), (67424, 67431), (67456, 67461), (67463, 67504), (67506, 67514), (67584, 67589), (67592, 67592), (67594, 67637),
     (67639, 67640), (67644, 67644), (67647, 67669), (67672, 67702), (67705, 67742), (67751, 67759), (67808, 67826), (67828, 67829),
     (67835, 67867), (67872, 67897), (67968, 68023), (68028, 68047), (68050, 68096), (68112, 68115), (68117, 68119), (68121, 68149),
     (68160, 68168), (68192, 68222), (68224, 68255), (68288, 68295), (68297, 68324), (68331, 68335), (68352, 68405), (68416, 68437),
     (68440, 68466), (68472, 68497), (68521, 68527), (68608, 68680), (68736, 68786), (68800, 68850), (68858, 68899), (68912, 68921),
     (69216, 69246), (69248, 69289), (69296, 69297), (69376, 69415), (69424, 69445), (69457, 69460), (69488, 69505), (69552, 69579),
     (69600, 69622), (69635, 69687), (69714, 69743), (69745, 69746), (69749, 69749), (69763, 69807), (69840, 69864), (69872, 69881)]"

definition word_ranges_5 :: "(nat \<times> nat) list" where
  "word_ranges_5 = [
     (69891, 69926), (69942, 69951), (69956, 69956), (69959, 69959), (69968, 70002), (70006, 70006), (70019, 70066), (70081, 70084),
     (70096, 70106), (70108, 70108), (70113, 70132), (70144, 70161), (70163, 70187), (70272, 70278), (70280, 70280), (70282, 70285),
     (70287, 70301), (70303, 70312), (70320, 70366), (70384, 70393), (70405, 70412), (70415, 70416), (70419, 70440), (70442, 70448),
     (70450, 70451), (70453, 70457), (70461, 70461), (70480, 70480), (70493, 70497), (70656, 70708), (70727, 70730), (70736, 70745),
     (70751, 70753), (70784, 70831), (70852, 70853), (70855, 70855), (70864, 70873), (71040, 71086), (71128, 71131), (71168, 71215),
     (71236, 71236), (71248, 71257), (71296, 71338), (71352, 71352), (71360, 71369), (71424, 71450), (71472, 71483), (71488, 71494),
     (71680, 71723), (71840, 71922), (71935, 71942), (71945, 71945), (71948, 71955), (71957, 71958), (71960, 71983), (71999, 71999),
     (72001, 72001), (72016, 72025), (72096, 72103), (72106, 72144), (72161, 72161), (72163, 72163), (72192, 72192), (72203, 72242),
     (72250, 72250), (72272, 72272), (72284, 72329), (72349, 72349), (72368, 72440), (72704, 72712), (72714, 72750), (72768, 72768),
     (72784, 72812), (72818, 72847), (72960, 72966), (72968, 72969), (72971, 73008), (73030, 73030), (73040, 73049), (73056, 73061),
     (73063, 73064), (73066, 73097), (73112, 73112), (73120, 73129), (73440, 73458), (73648, 73648), (73664, 73684), (73728, 74649),
     (74752, 74862), (74880, 75075), (77712, 77808), (77824, 78894), (82944, 83526), (92160, 92728), (92736, 92766), (92768, 92777),
     (92784, 92862), (92864, 92873), (92880, 92909), (92928, 92975), (92992, 92995), (93008, 93017), (93019, 93025), (93027, 93047),
     (93053, 93071), (93760, 93846), (93952, 94026), (94032, 94032), (94099, 94111), (94176, 94177), (94179, 94179), (94208, 100343),
     (100352, 101589), (101632, 101640), (110576, 110579), (110581, 110587), (110589, 110590), (110592, 110882), (110928, 110930), (110948, 110951),
     (110960, 111355), (113664, 113770), (113776, 113788), (113792, 113800), (113808, 113817), (119520, 119539), (119648, 119672), (119808, 119892)]"

definition word_ranges_6 :: "(nat \<times> nat) list" where
  "word_ranges_6 = [
     (119894, 119964), (119966, 119967), (119970, 119970), (119973, 119974), (119977, 119980), (119982, 119993), (119995, 119995), (119997, 120003),
     (120005, 120069), (120071, 120074), (120077, 120084), (120086, 120092), (120094, 120121), (120123, 120126), (120128, 120132), (120134, 120134),
     (120138, 120144), (120146, 120485), (120488, 120512), (120514, 120538), (120540, 120570), (120572, 120596), (120598, 120628), (120630, 120654),
     (120656, 120686), (120688, 120712), (120714, 120744), (120746, 120770), (120772, 120779), (120782, 120831), (122624, 122654), (123136, 123180),
     (123191, 123197), (123200, 123209), (123214, 123214), (123536, 123565), (123584, 123627), (123632, 123641), (124896, 124902), (124904, 124907),
     (124909, 124910), (124912, 124926), (124928, 125124), (125127, 125135), (125184, 125251), (125259, 125259), (125264, 125273), (126065, 126123),
     (126125, 126127), (126129, 126132), (126209, 126253), (126255, 126269), (126464, 126467), (126469, 126495), (126497, 126498), (126500, 126500),
     (126503, 126503), (126505, 126514), (126516, 126519), (126521, 126521), (126523, 126523), (126530, 126530), (126535, 126535), (126537, 126537),
     (126539, 126539), (126541, 126543), (126545, 126546), (126548, 126548), (126551, 126551), (126553, 126553), (126555, 126555), (126557, 126557),
     (126559, 126559), (126561, 126562), (126564, 126564), (126567, 126570), (126572, 126578), (126580, 126583), (126585, 126588), (126590, 126590),
     (126592, 126601), (126603, 126619), (126625, 126627), (126629, 126633), (126635, 126651), (127232, 127244), (130032, 130041), (131072, 173791),
     (173824, 177976), (177984, 178205), (178208, 183969), (183984, 191456), (194560, 195101), (196608, 201546)]"

definition word_ranges :: "(nat \<times> nat) list" where
  "word_ranges = concat [word_ranges_1, word_ranges_2, word_ranges_3, word_ranges_4,
     word_ranges_5, word_ranges_6]"

definition is_word :: "nat \<Rightarrow> bool" where
  "is_word c = in_ranges c word_ranges"

text \<open>
  \<^verbatim>\<open>str.upper\<close> maps each character on its own to its full uppercase mapping, which may
  be several characters (U+00DF to \<^verbatim>\<open>SS\<close>). The table lists every code point that
  \<^verbatim>\<open>upper\<close> changes, ascending; any other character is kept.
\<close>

definition upper_table_1 :: "(nat \<times> nat list) list" where
  "upper_table_1 = [
     (97, [65]), (98, [66]), (99, [67]), (100, [68]), (101, [69]), (102, [70]),
     (103, [71]), (104, [72]), (105, [73]), (106, [74]), (107, [75]), (108, [76]),
     (109, [77]), (110, [78]), (111, [79]), (112, [80]), (113, [81]), (114, [82]),
     (115, [83]), (116, [84]), (117, [85]), (118, [86]), (119, [87]), (120, [88]),
     (121, [89]), (122, [90]), (181, [924]), (223, [83, 83]), (224, [192]), (225, [193]),
     (226, [194]), (227, [195]), (228, [196]), (229, [197]), (230, [198]), (231, [199]),
     (232, [200]), (233, [201]), (234, [202]), (235, [203]), (236, [204]), (237, [205]),
     (238, [206]), (239, [207]), (240, [208]), (241, [209]), (242, [210]), (243, [211]),
     (244, [212]), (245, [213]), (246, [214]), (248, [216]), (249, [217]), (250, [218]),
     (251, [219]), (252, [220]), (253, [221]), (254, [222]), (255, [376]), (257, [256]),
     (259, [258]), (261, [260]), (263, [262]), (265, [264]), (267, [266]), (269, [268]),
     (271, [270]), (273, [272]), (275, [274]), (277, [276]), (279, [278]), (281, [280]),
     (283, [282]), (285, [284]), (287, [286]), (289, [288]), (291, [290]), (293, [292]),
     (295, [294]), (297, [296]), (299, [298]), (301, [300]), (303, [302]), (305, [73]),
     (307, [306]), (309, [308]), (311, [310]), (314, [313]), (316, [315]), (318, [317]),
     (320, [319]), (322, [321]), (324, [323]), (326, [325]), (328, [327]), (329, [700, 78]),
     (331, [330]), (333, [332]), (335, [334]), (337, [336]), (339, [338]), (341, [340]),
     (343, [342]), (345, [344]), (347, [346]), (349, [348]), (351, [350]), (353, [352]),
     (355, [354]), (357, [356]), (359, [358]), (361, [360]), (363, [362]), (365, [364]),
     (367, [366]), (369, [368]), (371, [370]), (373, [372]), (375, [374]), (378, [377]),
     (380, [379]), (382, [381]), (383, [83]), (384, [579]), (387, [386]), (389, [388])]"

definition upper_table_2 :: "(nat \<times> nat list) list" where
  "upper_table_2 = [
     (392, [391]), (396, [395]), (402, [401]), (405, [502]), (409, [408]), (410, [573]),
     (414, [544]), (417, [416]), (419, [418]), (421, [420]), (424, [423]), (429, [428]),
     (432, [431]), (436, [435]), (438, [437]), (441, [440]), (445, [444]), (447, [503]),
     (453, [452]), (454, [452]), (456, [455]), (457, [455]), (459, [458]), (460, [458]),
     (462, [461]), (464, [463]), (466, [465]), (468, [467]), (470, [469]), (472, [471]),
     (474, [473]), (476, [475]), (477, [398]), (479, [478]), (481, [480]), (483, [482]),
     (485, [484]), (487, [486]), (489, [488]), (491, [490]), (493, [492]), (495, [494]),
     (496, [74, 780]), (498, [497]), (499, [497]), (501, [500]), (505, [504]), (507, [506]),
     (509, [508]), (511, [510]), (513, [512]), (515, [514]), (517, [516]), (519, [518]),
     (521, [520]), (523, [522]), (525, [524]), (527, [526]), (529, [528]), (531, [530]),
     (533, [532]), (535, [534]), (537, [536]), (539, [538]), (541, [540]), (543, [542]),
     (547, [546]), (549, [548]), (551, [550]), (553, [552]), (555, [554]), (557, [556]),
     (559, [558]), (561, [560]), (563, [562]), (572, [571]), (575, [11390]), (576, [11391]),
     (578, [577]), (583, [582]), (585, [584]), (587, [586]), (589, [588]), (591, [590]),
     (592, [11375]), (593, [11373]), (594, [11376]), (595, [385]), (596, [390]), (598, [393]),
     (599, [394]), (601, [399]), (603, [400]), (604, [42923]), (608, [403]), (609, [42924]),
     (611, [404]), (613, [42893]), (614, [42922]), (616, [407]), (617, [406]), (618, [42926]),
     (619, [11362]), (620, [42925]), (623, [412]), (625, [11374]), (626, [413]), (629, [415]),
     (637, [11364]), (640, [422]), (642, [42949]), (643, [425]), (647, [42929]), (648, [430]),
     (649, [580]), (650, [433]), (651, [434]), (652, [581]), (658, [439]), (669, [42930]),
     (670, [42928]), (837, [921]), (881, [880]), (883, [882]), (887, [886]), (891, [1021])]"

definition upper_table_3 :: "(nat \<times> nat list) list" where
  "upper_table_3 = [
     (892, [1022]), (893, [1023]), (912, [921, 776, 769]), (940, [902]), (941, [904]), (942, [905]),
     (943, [906]), (944, [933, 776, 769]), (945, [913]), (946, [914]), (947, [915]), (948, [916]),
     (949, [917]), (950, [918]), (951, [919]), (952, [920]), (953, [921]), (954, [922]),
     (955, [923]), (956, [924]), (957, [925]), (958, [926]), (959, [927]), (960, [928]),
     (961, [929]), (962, [931]), (963, [931]), (964, [932]), (965, [933]), (966, [934]),
     (967, [935]), (968, [936]), (969, [937]), (970, [938]), (971, [939]), (972, [908]),
     (973, [910]), (974, [911]), (976, [914]), (977, [920]), (981, [934]), (982, [928]),
     (983, [975]), (985, [984]), (987, [986]), (989, [988]), (991, [990]), (993, [992]),
     (995, [994]), (997, [996]), (999, [998]), (1001, [1000]), (1003, [1002]), (1005, [1004]),
     (1007, [1006]), (1008, [922]), (1009, [929]), (1010, [1017]), (1011, [895]), (1013, [917]),
     (1016, [1015]), (1019, [1018]), (1072, [1040]), (1073, [1041]), (1074, [1042]), (1075, [1043]),
     (1076, [1044]), (1077, [1045]), (1078, [1046]), (1079, [1047]), (1080, [1048]), (1081, [1049]),
     (1082, [1050]), (1083, [1051]), (1084, [1052]), (1085, [1053]), (1086, [1054]), (1087, [1055]),
     (1088, [1056]), (1089, [1057]), (1090, [1058]), (1091, [1059]), (1092, [1060]), (1093, [1061]),
     (1094, [1062]), (1095, [1063]), (1096, [1064]), (1097, [1065]), (1098, [1066]), (1099, [1067]),
     (1100, [1068]), (1101, [1069]), (1102, [1070]), (1103, [1071]), (1104, [1024]), (1105, [1025]),
     (1106, [1026]), (1107, [1027]), (1108, [1028]), (1109, [1029]), (1110, [1030]), (1111, [1031]),
     (1112, [1032]), (1113, [1033]), (1114, [1034]), (1115, [1035]), (1116, [1036]), (1117, [1037]),
     (1118, [1038]), (1119, [1039]), (1121, [1120]), (1123, [1122]), (1125, [1124]), (1127, [1126]),
     (1129, [1128]), (1131, [1130]), (1133, [1132]), (1135, [1134]), (1137, [1136]), (1139, [1138]),
     (1141, [1140]), (1143, [1142]), (1145, [1144]), (1147, [1146]), (1149, [1148]), (1151, [1150])]"

definition upper_table_4 :: "(nat \<times> nat list) list" where
  "upper_table_4 = [
     (1153, [1152]), (1163, [1162]), (1165, [1164]), (1167, [1166]), (1169, [1168]), (1171, [1170]),
     (1173, [1172]), (1175, [1174]), (1177, [1176]), (1179, [1178]), (1181, [1180]), (1183, [1182]),
     (1185, [1184]), (1187, [1186]), (1189, [1188]), (1191, [1190]), (1193, [1192]), (1195, [1194]),
     (1197, [1196]), (1199, [1198]), (1201, [1200]), (1203, [1202]), (1205, [1204]), (1207, [1206]),
     (1209, [1208]), (1211, [1210]), (1213, [1212]), (1215, [1214]), (1218, [1217]), (1220, [1219]),
     (1222, [1221]), (1224, [1223]), (1226, [1225]), (1228, [1227]), (1230, [1229]), (1231, [1216]),
     (1233, [1232]), (1235, [1234]), (1237, [1236]), (1239, [1238]), (1241, [1240]), (1243, [1242]),
     (1245, [1244]), (1247, [1246]), (1249, [1248]), (1251, [1250]), (1253, [1252]), (1255, [1254]),
     (1257, [1256]), (1259, [1258]), (1261, [1260]), (1263, [1262]), (1265, [1264]), (1267, [1266]),
     (1269, [1268]), (1271, [1270]), (1273, [1272]), (1275, [1274]), (1277, [1276]), (1279, [1278]),
     (1281, [1280]), (1283, [1282]), (1285, [1284]), (1287, [1286]), (1289, [1288]), (1291, [1290]),
     (1293, [1292]), (1295, [1294]), (1297, [1296]), (1299, [1298]), (1301, [1300]), (1303, [1302]),
     (1305, [1304]), (1307, [1306]), (1309, [1308]), (1311, [1310]), (1313, [1312]), (1315, [1314]),
     (1317, [1316]), (1319, [1318]), (1321, [1320]), (1323, [1322]), (1325, [1324]), (1327, [1326]),
     (1377, [1329]), (1378, [1330]), (1379, [1331]), (1380, [1332]), (1381, [1333]), (1382, [1334]),
     (1383, [1335]), (1384, [1336]), (1385, [1337]), (1386, [1338]), (1387, [1339]), (1388, [1340]),
     (1389, [1341]), (1390, [1342]), (1391, [1343]), (1392, [1344]), (1393, [1345]), (1394, [1346]),
     (1395, [1347]), (1396, [1348]), (1397, [1349]), (1398, [1350]), (1399, [1351]), (1400, [1352]),
     (1401, [1353]), (1402, [1354]), (1403, [1355]), (1404, [1356]), (1405, [1357]), (1406, [1358]),
     (1407, [1359]), (1408, [1360]), (1409, [1361]), (1410, [1362]), (1411, [1363]), (1412, [1364]),
     (1413, [1365]), (1414, [1366]), (1415, [1333, 1362]), (4304, [7312]), (4305, [7313]), (4306, [7314])]"

definition upper_table_5 :: "(nat \<times> nat list) list" where
  "upper_table_5 = [
     (4307, [7315]), (4308, [7316]), (4309, [7317]), (4310, [7318]), (4311, [7319]), (4312, [7320]),
     (4313, [7321]), (4314, [7322]), (4315, [7323]), (4316, [7324]), (4317, [7325]), (4318, [7326]),
     (4319, [7327]), (4320, [7328]), (4321, [7329]), (4322, [7330]), (4323, [7331]), (4324, [7332]),
     (4325, [7333]), (4326, [7334]), (4327, [7335]), (4328, [7336]), (4329, [7337]), (4330, [7338]),
     (4331, [7339]), (4332, [7340]), (4333, [7341]), (4334, [7342]), (4335, [7343]), (4336, [7344]),
     (4337, [7345]), (4338, [7346]), (4339, [7347]), (4340, [7348]), (4341, [7349]), (4342, [7350]),
     (4343, [7351]), (4344, [7352]), (4345, [7353]), (4346, [7354]), (4349, [7357]), (4350, [7358]),
     (4351, [7359]), (5112, [5104]), (5113, [5105]), (5114, [5106]), (5115, [5107]), (5116, [5108]),
     (5117, [5109]), (7296, [1042]), (7297, [1044]), (7298, [1054]), (7299, [1057]), (7300, [1058]),
     (7301, [1058]), (7302, [1066]), (7303, [1122]), (7304, [42570]), (7545, [42877]), (7549, [11363]),
     (7566, [42950]), (7681, [7680]), (7683, [7682]), (7685, [7684]), (7687, [7686]), (7689, [7688]),
     (7691, [7690]), (7693, [7692]), (7695, [7694]), (7697, [7696]), (7699, [7698]), (7701, [7700]),
     (7703, [7702]), (7705, [7704]), (7707, [7706]), (7709, [7708]), (7711, [7710]), (7713, [7712]),
     (7715, [7714]), (7717, [7716]), (7719, [7718]), (7721, [7720]), (7723, [7722]), (7725, [7724]),
     (7727, [7726]), (7729, [7728]), (7731, [7730]), (7733, [7732]), (7735, [7734]), (7737, [7736]),
     (7739, [7738]), (7741, [7740]), (7743, [7742]), (7745, [7744]), (7747, [7746]), (7749, [7748]),
     (7751, [7750]), (7753, [7752]), (7755, [7754]), (7757, [7756]), (7759, [7758]), (7761, [7760]),
     (7763, [7762]), (7765, [7764]), (7767, [7766]), (7769, [7768]), (7771, [7770]), (7773, [7772]),
     (7775, [7774]), (7777, [7776]), (7779, [7778]), (7781, [7780]), (7783, [7782]), (7785, [7784]),
     (7787, [7786]), (7789, [7788]), (7791, [7790]), (7793, [7792]), (7795, [7794]), (7797, [7796]),
     (7799, [7798]), (7801, [7800]), (7803, [7802]), (7805, [7804]), (7807, [7806]), (7809, [7808])]"

definition upper_table_6 :: "(nat \<times> nat list) list" where
  "upper_table_6 = [
     (7811, [7810]), (7813, [7812]), (7815, [7814]), (7817, [7816]), (7819, [7818]), (7821, [7820]),
     (7823, [7822]), (7825, [7824]), (7827, [7826]), (7829, [7828]), (7830, [72, 817]), (7831, [84, 776]),
     (7832, [87, 778]), (7833, [89, 778]), (7834, [65, 702]), (7835, [7776]), (7841, [7840]), (7843, [7842]),
     (7845, [7844]), (7847, [7846]), (7849, [7848]), (7851, [7850]), (7853, [7852]), (7855, [7854]),
     (7857, [7856]), (7859, [7858]), (7861, [7860]), (7863, [7862]), (7865, [7864]), (7867, [7866]),
     (7869, [7868]), (7871, [7870]), (7873, [7872]), (7875, [7874]), (7877, [7876]), (7879, [7878]),
     (7881, [7880]), (7883, [7882]), (7885, [7884]), (7887, [7886]), (7889, [7888]), (7891, [7890]),
     (7893, [7892]), (7895, [7894]), (7897, [7896]), (7899, [7898]), (7901, [7900]), (7903, [7902]),
     (7905, [7904]), (7907, [7906]), (7909, [7908]), (7911, [7910]), (7913, [7912]), (7915, [7914]),
     (7917, [7916]), (7919, [7918]), (7921, [7920]), (7923, [7922]), (7925, [7924]), (7927, [7926]),
     (7929, [7928]), (7931, [7930]), (7933, [7932]), (7935, [7934]), (7936, [7944]), (7937, [7945]),
     (7938, [7946]), (7939, [7947]), (7940, [7948]), (7941, [7949]), (7942, [7950]), (7943, [7951]),
     (7952, [7960]), (7953, [7961]), (7954, [7962]), (7955, [7963]), (7956, [7964]), (7957, [7965]),
     (7968, [7976]), (7969, [7977]), (7970, [7978]), (7971, [7979]), (7972, [7980]), (7973, [7981]),
     (7974, [7982]), (7975, [7983]), (7984, [7992]), (7985, [7993]), (7986, [7994]), (7987, [7995]),
     (7988, [7996]), (7989, [7997]), (7990, [7998]), (7991, [7999]), (8000, [8008]), (8001, [8009]),
     (8002, [8010]), (8003, [8011]), (8004, [8012]), (8005, [8013]), (8016, [933, 787]), (8017, [8025]),
     (8018, [933, 787, 768]), (8019, [8027]), (8020, [933, 787, 769]), (8021, [8029]), (8022, [933, 787, 834]), (8023, [8031]),
     (8032, [8040]), (8033, [8041]), (8034, [8042]), (8035, [8043]), (8036, [8044]), (8037, [8045]),
     (8038, [8046]), (8039, [8047]), (8048, [8122]), (8049, [8123]), (8050, [8136]), (8051, [8137]),
     (8052, [8138]), (8053, [8139]), (8054, [8154]), (8055, [8155]), (8056, [8184]), (8057, [8185])]"

definition upper_table_7 :: "(nat \<times> nat list) list" where
  "upper_table_7 = [
     (8058, [8170]), (8059, [8171]), (8060, [8186]), (8061, [8187]), (8064, [7944, 921]), (8065, [7945, 921]),
     (8066, [7946, 921]), (8067, [7947, 921]), (8068, [7948, 921]), (8069, [7949, 921]), (8070, [7950, 921]), (8071, [7951, 921]),
     (8072, [7944, 921]), (8073, [7945, 921]), (8074, [7946, 921]), (8075, [7947, 921]), (8076, [7948, 921]), (8077, [7949, 921]),
     (8078, [7950, 921]), (8079, [7951, 921]), (8080, [7976, 921]), (8081, [7977, 921]), (8082, [7978, 921]), (8083, [7979, 921]),
     (8084, [7980, 921]), (8085, [7981, 921]), (8086, [7982, 921]), (8087, [7983, 921]), (8088, [7976, 921]), (8089, [7977, 921]),
     (8090, [7978, 921]), (8091, [7979, 921]), (8092, [7980, 921]), (8093, [7981, 921]), (8094, [7982, 921]), (8095, [7983, 921]),
     (8096, [8040, 921]), (8097, [8041, 921]), (8098, [8042, 921]), (8099, [8043, 921]), (8100, [8044, 921]), (8101, [8045, 921]),
     (8102, [8046, 921]), (8103, [8047, 921]), (8104, [8040, 921]), (8105, [8041, 921]), (8106, [8042, 921]), (8107, [8043, 921]),
     (8108, [8044, 921]), (8109, [8045, 921]), (8110, [8046, 921]), (8111, [8047, 921]), (8112, [8120]), (8113, [8121]),
     (8114, [8122, 921]), (8115, [913, 921]), (8116, [902, 921]), (8118, [913, 834]), (8119, [913, 834, 921]), (8124, [913, 921]),
     (8126, [921]), (8130, [8138, 921]), (8131, [919, 921]), (8132, [905, 921]), (8134, [919, 834]), (8135, [919, 834, 921]),
     (8140, [919, 921]), (8144, [8152]), (8145, [8153]), (8146, [921, 776, 768]), (8147, [921, 776, 769]), (8150, [921, 834]),
     (8151, [921, 776, 834]), (8160, [8168]), (8161, [8169]), (8162, [933, 776, 768]), (8163, [933, 776, 769]), (8164, [929, 787]),
     (8165, [8172]), (8166, [933, 834]), (8167, [933, 776, 834]), (8178, [8186, 921]), (8179, [937, 921]), (8180, [911, 921]),
     (8182, [937, 834]), (8183, [937, 834, 921]), (8188, [937, 921]), (8526, [8498]), (8560, [8544]), (8561, [8545]),
     (8562, [8546]), (8563, [8547]), (8564, [8548]), (8565, [8549]), (8566, [8550]), (8567, [8551]),
     (8568, [8552]), (8569, [8553]), (8570, [8554]), (8571, [8555]), (8572, [8556]), (8573, [8557]),
     (8574, [8558]), (8575, [8559]), (8580, [8579]), (9424, [9398]), (9425, [9399]), (9426, [9400]),
     (9427, [9401]), (9428, [9402]), (9429, [9403]), (9430, [9404]), (9431, [9405]), (9432, [9406]),
     (9433, [9407]), (9434, [9408]), (9435, [9409]), (9436, [9410]), (9437, [9411]), (9438, [9412]),
     (9439, [9413]), (9440, [9414]), (9441, [9415]), (9442, [9416]), (9443, [9417]), (9444, [9418])]"

definition upper_table_8 :: "(nat \<times> nat list) list" where
  "upper_table_8 = [
     (9445, [9419]), (9446, [9420]), (9447, [9421]), (9448, [9422]), (9449, [9423]), (11312, [11264]),
     (11313, [11265]), (11314, [11266]), (11315, [11267]), (11316, [11268]), (11317, [11269]), (11318, [11270]),
     (11319, [11271]), (11320, [11272]), (11321, [11273]), (11322, [11274]), (11323, [11275]), (11324, [11276]),
     (11325, [11277]), (11326, [11278]), (11327, [11279]), (11328, [11280]), (11329, [11281]), (11330, [11282]),
     (11331, [11283]), (11332, [11284]), (11333, [11285]), (11334, [11286]), (11335, [11287]), (11336, [11288]),
     (11337, [11289]), (11338, [11290]), (11339, [11291]), (11340, [11292]), (11341, [11293]), (11342, [11294]),
     (11343, [11295]), (11344, [11296]), (11345, [11297]), (11346, [11298]), (11347, [11299]), (11348, [11300]),
     (11349, [11301]), (11350, [11302]), (11351, [11303]), (11352, [11304]), (11353, [11305]), (11354, [11306]),
     (11355, [11307]), (11356, [11308]), (11357, [11309]), (11358, [11310]), (11359, [11311]), (11361, [11360]),
     (11365, [570]), (11366, [574]), (11368, [11367]), (11370, [11369]), (11372, [11371]), (11379, [11378]),
     (11382, [11381]), (11393, [11392]), (11395, [11394]), (11397, [11396]), (11399, [11398]), (11401, [11400]),
     (11403, [11402]), (11405, [11404]), (11407, [11406]), (11409, [11408]), (11411, [11410]), (11413, [11412]),
     (11415, [11414]), (11417, [11416]), (11419, [11418]), (11421, [11420]), (11423, [11422]), (11425, [11424]),
     (11427, [11426]), (11429, [11428]), (11431, [11430]), (11433, [11432]), (11435, [11434]), (11437, [11436]),
     (11439, [11438]), (11441, [11440]), (11443, [11442]), (11445, [11444]), (11447, [11446]), (11449, [11448]),
     (11451, [11450]), (11453, [11452]), (11455, [11454]), (11457, [11456]), (11459, [11458]), (11461, [11460]),
     (11463, [11462]), (11465, [11464]), (11467, [11466]), (11469, [11468]), (11471, [11470]), (11473, [11472]),
     (11475, [11474]), (11477, [11476]), (11479, [11478]), (11481, [11480]), (11483, [11482]), (11485, [11484]),
     (11487, [11486]), (11489, [11488]), (11491, [11490]), (11500, [11499]), (11502, [11501]), (11507, [11506]),
     (11520, [4256]), (11521, [4257]), (11522, [4258]), (11523, [4259]), (11524, [4260]), (11525, [4261]),
     (11526, [4262]), (11527, [4263]), (11528, [4264]), (11529, [4265]), (11530, [4266]), (11531, [4267])]"

definition upper_table_9 :: "(nat \<times> nat list) list" where
  "upper_table_9 = [
     (11532, [4268]), (11533, [4269]), (11534, [4270]), (11535, [4271]), (11536, [4272]), (11537, [4273]),
     (11538, [4274]), (11539, [4275]), (11540, [4276]), (11541, [4277]), (11542, [4278]), (11543, [4279]),
     (11544, [4280]), (11545, [4281]), (11546, [4282]), (11547, [4283]), (11548, [4284]), (11549, [4285]),
     (11550, [4286]), (11551, [4287]), (11552, [4288]), (11553, [4289]), (11554, [4290]), (11555, [4291]),
     (11556, [4292]), (11557, [4293]), (11559, [4295]), (11565, [4301]), (42561, [42560]), (42563, [42562]),
     (42565, [42564]), (42567, [42566]), (42569, [42568]), (42571, [42570]), (42573, [42572]), (42575, [42574]),
     (42577, [42576]), (42579, [42578]), (42581, [42580]), (42583, [42582]), (42585, [42584]), (42587, [42586]),
     (42589, [42588]), (42591, [42590]), (42593, [42592]), (42595, [42594]), (42597, [42596]), (42599, [42598]),
     (42601, [42600]), (42603, [42602]), (42605, [42604]), (42625, [42624]), (42627, [42626]), (42629, [42628]),
     (42631, [42630]), (42633, [42632]), (42635, [42634]), (42637, [42636]), (42639, [42638]), (42641, [42640]),
     (42643, [42642]), (42645, [42644]), (42647, [42646]), (42649, [42648]), (42651, [42650]), (42787, [42786]),
     (42789, [42788]), (42791, [42790]), (42793, [42792]), (42795, [42794]), (42797, [42796]), (42799, [42798]),
     (42803, [42802]), (42805, [42804]), (42807, [42806]), (42809, [42808]), (42811, [42810]), (42813, [42812]),
     (42815, [42814]), (42817, [42816]), (42819, [42818]), (42821, [42820]), (42823, [42822]), (42825, [42824]),
     (42827, [42826]), (42829, [42828]), (42831, [42830]), (42833, [42832]), (42835, [42834]), (42837, [42836]),
     (42839, [42838]), (42841, [42840]), (42843, [42842]), (42845, [42844]), (42847, [42846]), (42849, [42848]),
     (42851, [42850]), (42853, [42852]), (42855, [42854]), (42857, [42856]), (42859, [42858]), (42861, [42860]),
     (42863, [42862]), (42874, [42873]), (42876, [42875]), (42879, [42878]), (42881, [42880]), (42883, [42882]),
     (42885, [42884]), (42887, [42886]), (42892, [42891]), (42897, [42896]), (42899, [42898]), (42900, [42948]),
     (42903, [42902]), (42905, [42904]), (42907, [42906]), (42909, [42908]), (42911, [42910]), (42913, [42912]),
     (42915, [42914]), (42917, [42916]), (42919, [42918]), (42921, [42920]), (42933, [42932]), (42935, [42934])]"

definition upper_table_10 :: "(nat \<times> nat list) list" where
  "upper_table_10 = [
     (42937, [42936]), (42939, [42938]), (42941, [42940]), (42943, [42942]), (42945, [42944]), (42947, [42946]),
     (42952, [42951]), (42954, [42953]), (42961, [42960]), (42967, [42966]), (42969, [42968]), (42998, [42997]),
     (43859, [42931]), (43888, [5024]), (43889, [5025]), (43890, [5026]), (43891, [5027]), (43892, [5028]),
     (43893, [5029]), (43894, [5030]), (43895, [5031]), (43896, [5032]), (43897, [5033]), (43898, [5034]),
     (43899, [5035]), (43900, [5036]), (43901, [5037]), (43902, [5038]), (43903, [5039]), (43904, [5040]),
     (43905, [5041]), (43906, [5042]), (43907, [5043]), (43908, [5044]), (43909, [5045]), (43910, [5046]),
     (43911, [5047]), (43912, [5048]), (43913, [5049]), (43914, [5050]), (43915, [5051]), (43916, [5052]),
     (43917, [5053]), (43918, [5054]), (43919, [5055]), (43920, [5056]), (43921, [5057]), (43922, [5058]),
     (43923, [5059]), (43924, [5060]), (43925, [5061]), (43926, [5062]), (43927, [5063]), (43928, [5064]),
     (43929, [5065]), (43930, [5066]), (43931, [5067]), (43932, [5068]), (43933, [5069]), (43934, [5070]),
     (43935, [5071]), (43936, [5072]), (43937, [5073]), (43938, [5074]), (43939, [5075]), (43940, [5076]),
     (43941, [5077]), (43942, [5078]), (43943, [5079]), (43944, [5080]), (43945, [5081]), (43946, [5082]),
     (43947, [5083]), (43948, [5084]), (43949, [5085]), (43950, [5086]), (43951, [5087]), (43952, [5088]),
     (43953, [5089]), (43954, [5090]), (43955, [5091]), (43956, [5092]), (43957, [5093]), (43958, [5094]),
     (43959, [5095]), (43960, [5096]), (43961, [5097]), (43962, [5098]), (43963, [5099]), (43964, [5100]),
     (43965, [5101]), (43966, [5102]), (43967, [5103]), (64256, [70, 70]), (64257, [70, 73]), (64258, [70, 76]),
     (64259, [70, 70, 73]), (64260, [70, 70, 76]), (64261, [83, 84]), (64262, [83, 84]), (64275, [1348, 1350]), (64276, [1348, 1333]),
     (64277, [1348, 1339]), (64278, [1358, 1350]), (64279, [1348, 1341]), (65345, [65313]), (65346, [65314]), (65347, [65315]),
     (65348, [65316]), (65349, [65317]), (65350, [65318]), (65351, [65319]), (65352, [65320]), (65353, [65321]),
     (65354, [65322]), (65355, [65323]), (65356, [65324]), (65357, [65325]), (65358, [65326]), (65359, [65327]),
     (65360, [65328]), (65361, [65329]), (65362, [65330]), (65363, [65331]), (65364, [65332]), (65365, [65333])]"

definition upper_table_11 :: "(nat \<times> nat list) list" where
  "upper_table_11 = [
     (65366, [65334]), (65367, [65335]), (65368, [65336]), (65369, [65337]), (65370, [65338]), (66600, [66560]),
     (66601, [66561]), (66602, [66562]), (66603, [66563]), (66604, [66564]), (66605, [66565]), (66606, [66566]),
     (66607, [66567]), (66608, [66568]), (66609, [66569]), (66610, [66570]), (66611, [66571]), (66612, [66572]),
     (66613, [66573]), (66614, [66574]), (66615, [66575]), (66616, [66576]), (66617, [66577]), (66618, [66578]),
     (66619, [66579]), (66620, [66580]), (66621, [66581]), (66622, [66582]), (66623, [66583]), (66624, [66584]),
     (66625, [66585]), (66626, [66586]), (66627, [66587]), (66628, [66588]), (66629, [66589]), (66630, [66590]),
     (66631, [66591]), (66632, [66592]), (66633, [66593]), (66634, [66594]), (66635, [66595]), (66636, [66596]),
     (66637, [66597]), (66638, [66598]), (66639, [66599]), (66776, [66736]), (66777, [66737]), (66778, [66738]),
     (66779, [66739]), (66780, [66740]), (66781, [66741]), (66782, [66742]), (66783, [66743]), (66784, [66744]),
     (66785, [66745]), (66786, [66746]), (66787, [66747]), (66788, [66748]), (66789, [66749]), (66790, [66750]),
     (66791, [66751]), (66792, [66752]), (66793, [66753]), (66794, [66754]), (66795, [66755]), (66796, [66756]),
     (66797, [66757]), (66798, [66758]), (66799, [66759]), (66800, [66760]), (66801, [66761]), (66802, [66762]),
     (66803, [66763]), (66804, [66764]), (66805, [66765]), (66806, [66766]), (66807, [66767]), (66808, [66768]),
     (66809, [66769]), (66810, [66770]), (66811, [66771]), (66967, [66928]), (66968, [66929]), (66969, [66930]),
     (66970, [66931]), (66971, [66932]), (66972, [66933]), (66973, [66934]), (66974, [66935]), (66975, [66936]),
     (66976, [66937]), (66977, [66938]), (66979, [66940]), (66980, [66941]), (66981, [66942]), (66982, [66943]),
     (66983, [66944]), (66984, [66945]), (66985, [66946]), (66986, [66947]), (66987, [66948]), (66988, [66949]),
     (66989, [66950]), (66990, [66951]), (66991, [66952]), (66992, [66953]), (66993, [66954]), (66995, [66956]),
     (66996, [66957]), (66997, [66958]), (66998, [66959]), (66999, [66960]), (67000, [66961]), (67001, [66962]),
     (67003, [66964]), (67004, [66965]), (68800, [68736]), (68801, [68737]), (68802, [68738]), (68803, [68739]),
     (68804, [68740]), (68805, [68741]), (68806, [68742]), (68807, [68743]), (68808, [68744]), (68809, [68745])]"

definition upper_table_12 :: "(nat \<times> nat list) list" where
  "upper_table_12 = [
     (68810, [68746]), (68811, [68747]), (68812, [68748]), (68813, [68749]), (68814, [68750]), (68815, [68751]),
     (68816, [68752]), (68817, [68753]), (68818, [68754]), (68819, [68755]), (68820, [68756]), (68821, [68757]),
     (68822, [68758]), (68823, [68759]), (68824, [68760]), (68825, [68761]), (68826, [68762]), (68827, [68763]),
     (68828, [68764]), (68829, [68765]), (68830, [68766]), (68831, [68767]), (68832, [68768]), (68833, [68769]),
     (68834, [68770]), (68835, [68771]), (68836, [68772]), (68837, [68773]), (68838, [68774]), (68839, [68775]),
     (68840, [68776]), (68841, [68777]), (68842, [68778]), (68843, [68779]), (68844, [68780]), (68845, [68781]),
     (68846, [68782]), (68847, [68783]), (68848, [68784]), (68849, [68785]), (68850, [68786]), (71872, [71840]),
     (71873, [71841]), (71874, [71842]), (71875, [71843]), (71876, [71844]), (71877, [71845]), (71878, [71846]),
     (71879, [71847]), (71880, [71848]), (71881, [71849]), (71882, [71850]), (71883, [71851]), (71884, [71852]),
     (71885, [71853]), (71886, [71854]), (71887, [71855]), (71888, [71856]), (71889, [71857]), (71890, [71858]),
     (71891, [71859]), (71892, [71860]), (71893, [71861]), (71894, [71862]), (71895, [71863]), (71896, [71864]),
     (71897, [71865]), (71898, [71866]), (71899, [71867]), (71900, [71868]), (71901, [71869]), (71902, [71870]),
     (71903, [71871]), (93792, [93760]), (93793, [93761]), (93794, [93762]), (93795, [93763]), (93796, [93764]),
     (93797, [93765]), (93798, [93766]), (93799, [93767]), (93800, [93768]), (93801, [93769]), (93802, [93770]),
     (93803, [93771]), (93804, [93772]), (93805, [93773]), (93806, [93774]), (93807, [93775]), (93808, [93776]),
     (93809, [93777]), (93810, [93778]), (93811, [93779]), (93812, [93780]), (93813, [93781]), (93814, [93782]),
     (93815, [93783]), (93816, [93784]), (93817, [93785]), (93818, [93786]), (93819, [93787]), (93820, [93788]),
     (93821, [93789]), (93822, [93790]), (93823, [93791]), (125218, [125184]), (125219, [125185]), (125220, [125186]),
     (125221, [125187]), (125222, [125188]), (125223, [125189]), (125224, [125190]), (125225, [125191]), (125226, [125192]),
     (125227, [125193]), (125228, [125194]), (125229, [125195]), (125230, [125196]), (125231, [125197]), (125232, [125198]),
     (125233, [125199]), (125234, [125200]), (125235, [125201]), (125236, [125202]), (125237, [125203]), (125238, [125204])]"

definition upper_table_13 :: "(nat \<times> nat list) list" where
  "upper_table_13 = [
     (125239, [125205]), (125240, [125206]), (125241, [125207]), (125242, [125208]), (125243, [125209]), (125244, [125210]),
     (125245, [125211]), (125246, [125212]), (125247, [125213]), (125248, [125214]), (125249, [125215]), (125250, [125216]),
     (125251, [125217])]"

definition upper_table :: "(nat \<times> nat list) list" where
  "upper_table = concat [upper_table_1, upper_table_2, upper_table_3, upper_table_4,
     upper_table_5, upper_table_6, upper_table_7, upper_table_8,
     upper_table_9, upper_table_10, upper_table_11, upper_table_12,
     upper_table_13]"

fun lookup_sorted :: "nat \<Rightarrow> (nat \<times> 'a) list \<Rightarrow> 'a option" where
  "lookup_sorted c [] = None"
| "lookup_sorted c ((k, v) # kvs) =
     (if c < k then None else if c = k then Some v else lookup_sorted c kvs)"

definition upper_cp :: "nat \<Rightarrow> ustr" where
  "upper_cp c = (case lookup_sorted c upper_table of None \<Rightarrow> [c] | Some u \<Rightarrow> u)"

definition upper :: "ustr \<Rightarrow> ustr" where
  "upper s = concat (map upper_cp s)"

subsection \<open>String operations\<close>

definition strip :: "ustr \<Rightarrow> ustr" where
  "strip s = rev (dropWhile isspace (rev (dropWhile isspace s)))"

text \<open>\<^verbatim>\<open>s.split('\n')\<close>: the pieces between line feeds (code point 10), never an empty list.\<close>

fun split_nl :: "ustr \<Rightarrow> ustr list" where
  "split_nl [] = [[]]"
| "split_nl (c # cs) =
     (if c = 10 then [] # split_nl cs
      else (case split_nl cs of [] \<Rightarrow> [[c]] | p # ps \<Rightarrow> (c # p) # ps))"

text \<open>\<^verbatim>\<open>s.isdigit()\<close>: at least one character, and all of them digits.\<close>

definition isdigit :: "ustr \<Rightarrow> bool" where
  "isdigit s = (s \<noteq> [] \<and> list_all isdigit_cp s)"

text \<open>\<^verbatim>\<open>sub in s\<close>: \<open>sub\<close> occurs in \<open>s\<close> as a contiguous substring.\<close>

definition starts_with :: "ustr \<Rightarrow> ustr \<Rightarrow> bool" where
  "starts_with s sub = (take (length sub) s = sub)"

fun contains :: "ustr \<Rightarrow> ustr \<Rightarrow> bool" where
  "contains [] sub = (sub = [])"
| "contains (c # cs) sub = (starts_with (c # cs) sub \<or> contains cs sub)"

text \<open>\<^verbatim>\<open>sep.join(parts)\<close>.\<close>

fun join :: "ustr \<Rightarrow> ustr list \<Rightarrow> ustr" where
  "join sep [] = []"
| "join sep [p] = p"
| "join sep (p # q # ps) = p @ sep @ join sep (q # ps)"

section \<open>Unit extraction\<close>

text \<open>
  \<^verbatim>\<open>extract_unit_from_range\<close> of \<^verbatim>\<open>services/pdf_parser.py\<close>. The catalogue in the
  source's order; its eighth entry starts with U+03BC.
\<close>

definition units :: "ustr list" where
  "units = [ascii ''%'', ascii ''mg/dL'', ascii ''mg/dl'', ascii ''U/L'', ascii ''g/dL'',
     ascii ''g/dl'', ascii ''mmol/L'', 956 # ascii ''g/dL'', ascii ''ng/mL'', ascii ''mL/min'']"

text \<open>The loop \<^verbatim>\<open>for unit in units: if unit in reference_range: return unit\<close>.\<close>

fun first_unit :: "ustr list \<Rightarrow> ustr \<Rightarrow> ustr option" where
  "first_unit [] r = None"
| "first_unit (u # us) r = (if contains r u then Some u else first_unit us r)"

text \<open>The character class \<^verbatim>\<open>[a-zA-Z/\<mu>]\<close> (no flags, so the letters are the ASCII ones).\<close>

definition unit_char :: "nat \<Rightarrow> bool" where
  "unit_char c = ((97 \<le> c \<and> c \<le> 122) \<or> (65 \<le> c \<and> c \<le> 90) \<or> c = 47 \<or> c = 956)"

text \<open>
  \<^verbatim>\<open>re.search(r'([a-zA-Z/\<mu>]+)', s)\<close>: the leftmost position where the class matches, and
  from there the longest run (the quantifier is greedy); the group is the whole match.
\<close>

definition search_unit :: "ustr \<Rightarrow> ustr option" where
  "search_unit s =
     (let t = dropWhile (\<lambda>c. \<not> unit_char c) s
      in if t = [] then None else Some (takeWhile unit_char t))"

definition extract_unit_from_range :: "ustr \<Rightarrow> ustr" where
  "extract_unit_from_range reference_range =
     (if reference_range = [] then []
      else (case first_unit units reference_range of
              Some unit \<Rightarrow> unit
            | None \<Rightarrow> (case search_unit reference_range of
                         Some m \<Rightarrow> m
                       | None \<Rightarrow> [])))"

section \<open>Exceptions and floats\<close>

text \<open>
  The exceptions the modelled code can see; all are subclasses of \<^verbatim>\<open>Exception\<close>, which is
  what the handlers of the source catch. A function that can raise returns \<open>exn + 'a\<close>,
  with \<open>Inl\<close> for the exception raised.
\<close>

datatype exn = AttributeError | TypeError | ValueError | QueryError

text \<open>
  The only floats the parser makes come from \<^verbatim>\<open>float\<close> of a string of decimal digits with
  at most one point: they are the non-negative doubles and positive infinity (CPython rounds
  to the nearest double, ties to even, and gives \<^verbatim>\<open>inf\<close> beyond the largest double).
\<close>

datatype pyfloat = Finite rat | Infinity

text \<open>The integer nearest to \<open>n / d\<close>, ties to the even one.\<close>

definition round_half_even :: "nat \<Rightarrow> nat \<Rightarrow> nat" where
  "round_half_even n d =
     (let q = n div d; r = n mod d
      in if 2 * r < d then q else if d < 2 * r then q + 1 else if even q then q else q + 1)"

fun bit_length :: "nat \<Rightarrow> nat" where
  "bit_length n = (if n = 0 then 0 else Suc (bit_length (n div 2)))"

declare bit_length.simps [simp del]

text \<open>The integer part of the binary logarithm of \<open>n / d\<close>, for positive \<open>n\<close> and \<open>d\<close>.\<close>

definition floor_log2 :: "nat \<Rightarrow> nat \<Rightarrow> int" where
  "floor_log2 n d =
     (if d \<le> n then int (bit_length (n div d)) - 1 else - int (bit_length ((d - 1) div n)))"

text \<open>
  The double nearest to \<open>n / d\<close>: 53 significant bits, the unit in the last place never
  below \<open>2 ^ -1074\<close> (subnormal numbers), infinity from \<open>2 ^ 1024\<close> on.
\<close>

definition to_double :: "nat \<Rightarrow> nat \<Rightarrow> pyfloat" where
  "to_double n d =
     (if n = 0 then Finite 0
      else let e = max (floor_log2 n d) (- 1022) - 52
           in if 0 \<le> e
              then (let m = round_half_even n (d * 2 ^ nat e)
                    in if 2 ^ 1024 \<le> m * 2 ^ nat e then Infinity
                       else Finite (of_nat (m * 2 ^ nat e)))
              else Finite (of_nat (round_half_even (n * 2 ^ nat (- e)) d) / 2 ^ nat (- e)))"

definition digits_value :: "ustr \<Rightarrow> nat" where
  "digits_value ds = foldl (\<lambda>n c. 10 * n + decimal_value c) 0 ds"

text \<open>
  \<^verbatim>\<open>float(s)\<close> on the strings the parser passes to it: decimal digits, then optionally a
  point and more digits. \<^verbatim>\<open>float\<close> reads any Unicode decimal digit by its value. Every
  other string is \<open>Inl ValueError\<close> here; \<^verbatim>\<open>float\<close> accepts more (signs, exponents,
  blanks, \<^verbatim>\<open>inf\<close>), none of which the pattern of \<open>number_match\<close> lets through.
\<close>

definition py_float :: "ustr \<Rightarrow> exn + pyfloat" where
  "py_float s =
     (let ip = takeWhile isdecimal s; rest = dropWhile isdecimal s
      in if ip = [] then Inl ValueError
         else if rest = [] then Inr (to_double (digits_value ip) 1)
         else if hd rest = 46 \<and> list_all isdecimal (tl rest)
         then Inr (to_double (digits_value (ip @ tl rest)) (10 ^ length (tl rest)))
         else Inl ValueError)"

text \<open>
  The truth value of \<^verbatim>\<open>value\<close>, which is \<^verbatim>\<open>None\<close> or a float: \<^verbatim>\<open>None\<close> and \<^verbatim>\<open>0.0\<close> are
  false.
\<close>

fun truthy :: "pyfloat option \<Rightarrow> bool" where
  "truthy None = False"
| "truthy (Some (Finite q)) = (q \<noteq> 0)"
| "truthy (Some Infinity) = True"

section \<open>Row parsing\<close>

text \<open>
  A cell of a table row. The extraction gives strings; \<^verbatim>\<open>parse_test_row\<close> and
  \<^verbatim>\<open>find_header_row\<close> also provide for \<^verbatim>\<open>None\<close>. \<open>NonStr b\<close> is any other object (a
  number, as pandas gives for a missing value) with truth value \<open>b\<close>: it has no
  \<^verbatim>\<open>strip\<close> and cannot be joined.
\<close>

datatype cell = Str ustr | Null | NonStr bool

record BloodworkResult =
  test_name :: ustr
  val :: pyfloat
  unit :: ustr
  test_date :: ustr
  reference_range :: ustr

text \<open>\<^verbatim>\<open>cell.strip() if cell else ""\<close>.\<close>

fun clean_cell :: "cell \<Rightarrow> exn + ustr" where
  "clean_cell (Str s) = Inr (if s \<noteq> [] then strip s else [])"
| "clean_cell Null = Inr []"
| "clean_cell (NonStr b) = (if b then Inl AttributeError else Inr [])"

fun clean_row :: "cell list \<Rightarrow> exn + ustr list" where
  "clean_row [] = Inr []"
| "clean_row (c # cs) =
     (case clean_cell c of
        Inl e \<Rightarrow> Inl e
      | Inr s \<Rightarrow> (case clean_row cs of Inl e \<Rightarrow> Inl e | Inr ss \<Rightarrow> Inr (s # ss)))"

text \<open>The first loop: the non-empty trimmed lines of the non-empty cells, in order.\<close>

definition all_parts :: "ustr list \<Rightarrow> ustr list" where
  "all_parts clean =
     concat (map (\<lambda>cell. if cell \<noteq> [] then filter (\<lambda>p. p \<noteq> []) (map strip (split_nl cell)) else [])
       clean)"

text \<open>The second loop: trimmed again, without the empty and the all-digit parts.\<close>

definition filtered_parts :: "ustr list \<Rightarrow> ustr list" where
  "filtered_parts parts = filter (\<lambda>p. p \<noteq> [] \<and> \<not> isdigit p) (map strip parts)"

text \<open>
  \<^verbatim>\<open>re.match(r'^(\d+\.?\d*)', part)\<close>, giving group 1: the longest run of leading digits
  (at least one), a point if one follows, and the digits after it. Each quantifier is
  greedy, and nothing after them can fail, so no shorter match is ever tried.
\<close>

definition number_match :: "ustr \<Rightarrow> ustr option" where
  "number_match part =
     (let d1 = takeWhile isdecimal part; r1 = dropWhile isdecimal part
      in if d1 = [] then None
         else if r1 \<noteq> [] \<and> hd r1 = 46 then Some (d1 @ 46 # takeWhile isdecimal (tl r1))
         else Some d1)"

text \<open>
  The last \<^verbatim>\<open>if\<close> of the loop body, \<^verbatim>\<open>if value:\<close>, reached whenever the body did not
  \<^verbatim>\<open>continue\<close>: the part is appended to the reference range.
\<close>

definition collect :: "pyfloat option \<times> ustr \<Rightarrow> ustr \<Rightarrow> pyfloat option \<times> ustr" where
  "collect st part =
     (case st of (value, rr) \<Rightarrow>
        if truthy value then (value, if rr \<noteq> [] then rr @ 32 # part else part)
        else (value, rr))"

text \<open>
  One pass of the loop over \<^verbatim>\<open>filtered_parts[1:]\<close>; the state is \<^verbatim>\<open>value\<close> and
  \<^verbatim>\<open>reference_range\<close>. Under \<^verbatim>\<open>if not value:\<close> a match sets \<^verbatim>\<open>value\<close>, sets
  \<^verbatim>\<open>reference_range\<close> to the rest of the part when that is not blank, and continues; a
  \<^verbatim>\<open>ValueError\<close> of \<^verbatim>\<open>float\<close> is passed over.
\<close>

definition scan_step :: "pyfloat option \<times> ustr \<Rightarrow> ustr \<Rightarrow> pyfloat option \<times> ustr" where
  "scan_step st part =
     (case st of (value, rr) \<Rightarrow>
        if \<not> truthy value then
          (case number_match part of
             Some value_str \<Rightarrow>
               (case py_float value_str of
                  Inr v \<Rightarrow>
                    (let remaining = strip (drop (length value_str) part)
                     in (Some v, if remaining \<noteq> [] then remaining else rr))
                | Inl e \<Rightarrow> collect (value, rr) part)
           | None \<Rightarrow> collect (value, rr) part)
        else collect (value, rr) part)"

definition scan_parts :: "ustr list \<Rightarrow> pyfloat option \<times> ustr" where
  "scan_parts parts = foldl scan_step (None, []) parts"

text \<open>The body of the \<^verbatim>\<open>try\<close> once \<^verbatim>\<open>clean_row\<close> is there; \<open>None\<close> is \<^verbatim>\<open>return None\<close>.\<close>

definition parse_clean_row :: "ustr list \<Rightarrow> ustr \<Rightarrow> BloodworkResult option" where
  "parse_clean_row clean date =
     (if length clean < 2 \<or> \<not> list_ex (\<lambda>c. c \<noteq> []) clean then None
      else if length (filter (\<lambda>c. strip c \<noteq> []) clean) \<le> 1 then None
      else let parts = filtered_parts (all_parts clean)
           in if length parts < 2 then None
              else (case scan_parts (tl parts) of
                      (None, rr) \<Rightarrow> None
                    | (Some v, rr) \<Rightarrow>
                        Some \<lparr>test_name = strip (filter (\<lambda>c. c \<noteq> 42) (hd parts)),
                              val = v,
                              unit = extract_unit_from_range rr,
                              test_date = date,
                              reference_range = rr\<rparr>))"

definition parse_test_row_try :: "cell list \<Rightarrow> ustr \<Rightarrow> exn + BloodworkResult option" where
  "parse_test_row_try row date =
     (case clean_row row of Inl e \<Rightarrow> Inl e | Inr clean \<Rightarrow> Inr (parse_clean_row clean date))"

text \<open>\<^verbatim>\<open>parse_test_row\<close>: the \<^verbatim>\<open>try\<close> with its handler \<^verbatim>\<open>except Exception: return None\<close>.\<close>

definition parse_test_row :: "cell list \<Rightarrow> ustr \<Rightarrow> exn + BloodworkResult option" where
  "parse_test_row row date =
     (case parse_test_row_try row date of Inl e \<Rightarrow> Inr None | Inr r \<Rightarrow> Inr r)"

section \<open>Table assembly\<close>

text \<open>\<^verbatim>\<open>' '.join([cell or '' for cell in row])\<close>: \<^verbatim>\<open>join\<close> raises on an item that is no string.\<close>

fun cell_or_empty :: "cell \<Rightarrow> exn + ustr" where
  "cell_or_empty (Str s) = Inr s"
| "cell_or_empty Null = Inr []"
| "cell_or_empty (NonStr b) = (if b then Inl TypeError else Inr [])"

fun cells_or_empty :: "cell list \<Rightarrow> exn + ustr list" where
  "cells_or_empty [] = Inr []"
| "cells_or_empty (c # cs) =
     (case cell_or_empty c of
        Inl e \<Rightarrow> Inl e
      | Inr s \<Rightarrow> (case cells_or_empty cs of Inl e \<Rightarrow> Inl e | Inr ss \<Rightarrow> Inr (s # ss)))"

definition row_text :: "cell list \<Rightarrow> exn + ustr" where
  "row_text row =
     (case cells_or_empty row of Inl e \<Rightarrow> Inl e | Inr ss \<Rightarrow> Inr (upper (join [32] ss)))"

definition REZULTATI :: ustr where
  "REZULTATI = ascii ''REZULTATI''"

definition VLERAT_REFERUESE :: ustr where
  "VLERAT_REFERUESE = ascii ''VLERAT REFERUESE''"

text \<open>
  \<^verbatim>\<open>find_header_row\<close>; the first argument is the index of the head of the list in the
  table, \<open>Inr None\<close> is \<^verbatim>\<open>return None\<close>.
\<close>

fun find_header_from :: "nat \<Rightarrow> cell list list \<Rightarrow> exn + nat option" where
  "find_header_from i [] = Inr None"
| "find_header_from i (row # rows) =
     (if row \<noteq> [] \<and> 2 \<le> length row then
        (case row_text row of
           Inl e \<Rightarrow> Inl e
         | Inr t \<Rightarrow>
             if contains t REZULTATI \<or> contains t VLERAT_REFERUESE then Inr (Some i)
             else find_header_from (Suc i) rows)
      else find_header_from (Suc i) rows)"

definition find_header_row :: "cell list list \<Rightarrow> exn + nat option" where
  "find_header_row table = find_header_from 0 table"

text \<open>
  The inner loop of \<^verbatim>\<open>parse_blood_work_table\<close> over the rows it is given: a row that is
  empty or has fewer than two cells is skipped, an accepted result is appended, an
  exception of \<^verbatim>\<open>parse_test_row\<close> would leave the loop.
\<close>

fun process_rows :: "ustr \<Rightarrow> cell list list \<Rightarrow> exn + BloodworkResult list" where
  "process_rows date [] = Inr []"
| "process_rows date (row # rows) =
     (if row = [] \<or> length row < 2 then process_rows date rows
      else (case parse_test_row row date of
              Inl e \<Rightarrow> Inl e
            | Inr test_result \<Rightarrow>
                (case process_rows date rows of
                   Inl e \<Rightarrow> Inl e
                 | Inr rs \<Rightarrow>
                     Inr (case test_result of None \<Rightarrow> rs | Some r \<Rightarrow> r # rs))))"

text \<open>
  One table: the header index, 0 when there is none, and the rows of
  \<^verbatim>\<open>range(header_row_idx + 1, len(table_as_lists))\<close>.
\<close>

definition table_results :: "ustr \<Rightarrow> cell list list \<Rightarrow> exn + BloodworkResult list" where
  "table_results date table =
     (case find_header_row table of
        Inl e \<Rightarrow> Inl e
      | Inr found \<Rightarrow>
          (let header_row_idx = (case found of None \<Rightarrow> 0 | Some i \<Rightarrow> i)
           in process_rows date (drop (header_row_idx + 1) table)))"

fun tables_results :: "ustr \<Rightarrow> cell list list list \<Rightarrow> exn + BloodworkResult list" where
  "tables_results date [] = Inr []"
| "tables_results date (t # ts) =
     (case table_results date t of
        Inl e \<Rightarrow> Inl e
      | Inr rs \<Rightarrow> (case tables_results date ts of Inl e \<Rightarrow> Inl e | Inr rs' \<Rightarrow> Inr (rs @ rs')))"

record extracted_data =
  full_text :: ustr
  tables :: "cell list list list"
  date :: ustr

record BloodworkRecord =
  patient_name :: "ustr option"
  record_date :: ustr
  results :: "BloodworkResult list"

definition parse_blood_work_table :: "extracted_data \<Rightarrow> ustr option \<Rightarrow> exn + BloodworkRecord" where
  "parse_blood_work_table extracted name =
     (case tables_results (date extracted) (tables extracted) of
        Inl e \<Rightarrow> Inl e
      | Inr rs \<Rightarrow> Inr \<lparr>patient_name = name, record_date = date extracted, results = rs\<rparr>)"

section \<open>Date resolution\<close>

text \<open>
  \<^verbatim>\<open>re.findall(r'\b(\d{2}/\d{2}/\d{4})\b', text)\<close>. The pattern has a fixed width of ten
  characters and starts and ends with a digit, which is a word character, so \<^verbatim>\<open>\b\<close>
  holds in front when the character before is no word character (or there is none) and
  behind when the character after is none (or there is none). The matches are found from
  left to right and do not overlap: after a match the search goes on behind it.
\<close>

definition date_shape :: "ustr \<Rightarrow> bool" where
  "date_shape s =
     (length s = 10 \<and> isdecimal (s ! 0) \<and> isdecimal (s ! 1) \<and> s ! 2 = 47 \<and>
      isdecimal (s ! 3) \<and> isdecimal (s ! 4) \<and> s ! 5 = 47 \<and>
      isdecimal (s ! 6) \<and> isdecimal (s ! 7) \<and> isdecimal (s ! 8) \<and> isdecimal (s ! 9))"

definition date_at :: "ustr \<Rightarrow> bool" where
  "date_at s = (date_shape (take 10 s) \<and> (case drop 10 s of [] \<Rightarrow> True | c # cs \<Rightarrow> \<not> is_word c))"

text \<open>The flag says whether the character before the list is a word character.\<close>

function findall_from :: "bool \<Rightarrow> ustr \<Rightarrow> ustr list" where
  "findall_from after_word [] = []"
| "findall_from after_word (c # cs) =
     (if \<not> after_word \<and> date_at (c # cs) then take 10 (c # cs) # findall_from True (drop 10 (c # cs))
      else findall_from (is_word c) cs)"
  by pat_completeness auto
termination
  by (relation "measure (\<lambda>(b, s). length s)") auto

definition findall_dates :: "ustr \<Rightarrow> ustr list" where
  "findall_dates text = findall_from False text"

text \<open>A calendar date: year, month, day.\<close>

record pydate =
  year :: nat
  month :: nat
  day :: nat

definition is_leap :: "nat \<Rightarrow> bool" where
  "is_leap y = (y mod 4 = 0 \<and> (y mod 100 \<noteq> 0 \<or> y mod 400 = 0))"

definition days_in_month :: "nat \<Rightarrow> nat \<Rightarrow> nat" where
  "days_in_month y m =
     (if m = 2 then (if is_leap y then 29 else 28)
      else if m = 4 \<or> m = 6 \<or> m = 9 \<or> m = 11 then 30 else 31)"

text \<open>
  \<^verbatim>\<open>datetime.strptime(s, '%d/%m/%Y')\<close> on a string of the shape that \<open>findall_dates\<close>
  returns. The library matches the whole string against
  \<^verbatim>\<open>(3[0-1]|[1-2]\d|0[1-9]|[1-9]| [1-9])/(1[0-2]|0[1-9]|[1-9])/(\d\d\d\d)\<close>, reads the groups
  with \<^verbatim>\<open>int\<close> and builds the date, which raises \<^verbatim>\<open>ValueError\<close> for the year 0 and for a
  day the month does not have. With two characters before each slash only the two-character
  alternatives can match. A string of another shape is \<open>Inl ValueError\<close> here.
\<close>

definition strptime_dmy :: "ustr \<Rightarrow> exn + pydate" where
  "strptime_dmy s =
     (if \<not> date_shape s then Inl ValueError
      else let d1 = s ! 0; d2 = s ! 1; m1 = s ! 3; m2 = s ! 4;
               day_ok = ((d1 = 51 \<and> (d2 = 48 \<or> d2 = 49)) \<or> (d1 = 49 \<or> d1 = 50) \<or>
                         (d1 = 48 \<and> 49 \<le> d2 \<and> d2 \<le> 57));
               month_ok = ((m1 = 49 \<and> 48 \<le> m2 \<and> m2 \<le> 50) \<or> (m1 = 48 \<and> 49 \<le> m2 \<and> m2 \<le> 57));
               d = digits_value [d1, d2]; m = digits_value [m1, m2];
               y = digits_value (drop 6 s)
           in if day_ok \<and> month_ok \<and> 1 \<le> y \<and> d \<le> days_in_month y m
              then Inr \<lparr>year = y, month = m, day = d\<rparr>
              else Inl ValueError)"

text \<open>
  \<^verbatim>\<open>strftime\<close>: \<^verbatim>\<open>%d\<close> and \<^verbatim>\<open>%m\<close> are two digits. \<^verbatim>\<open>%Y\<close> is the year as the C library
  prints it; the model follows the GNU C library, which writes the number without padding,
  so the year 999 is \<^verbatim>\<open>999\<close> (the library reference shows four digits, which is what
  other platforms give; from the year 1000 on there is no difference).
\<close>

definition digit_char :: "nat \<Rightarrow> nat" where
  "digit_char n = 48 + n mod 10"

definition pad2 :: "nat \<Rightarrow> ustr" where
  "pad2 n = [digit_char (n div 10), digit_char n]"

text \<open>A number in decimal digits, without padding.\<close>

function dec_str :: "nat \<Rightarrow> ustr" where
  "dec_str n = (if n < 10 then [digit_char n] else dec_str (n div 10) @ [digit_char n])"
  by pat_completeness auto
termination
  by (relation "measure (\<lambda>n. n)") auto

declare dec_str.simps [simp del]

text \<open>\<^verbatim>\<open>strftime("%d/%m/%Y")\<close>.\<close>

definition strftime_dmy :: "pydate \<Rightarrow> ustr" where
  "strftime_dmy dt = pad2 (day dt) @ 47 # pad2 (month dt) @ 47 # dec_str (year dt)"

text \<open>\<^verbatim>\<open>strftime('%Y-%m-%d')\<close>.\<close>

definition strftime_ymd :: "pydate \<Rightarrow> ustr" where
  "strftime_ymd dt = dec_str (year dt) @ 45 # pad2 (month dt) @ 45 # pad2 (day dt)"

text \<open>
  The loop \<^verbatim>\<open>for date_str in dates: if date_str != user_bday: date_match = date_str\<close>, from
  \<^verbatim>\<open>date_match = None\<close>. The birthday is optional; a string differs from \<^verbatim>\<open>None\<close>.
\<close>

definition select_date :: "ustr list \<Rightarrow> ustr option \<Rightarrow> ustr option" where
  "select_date dates user_bday =
     foldl (\<lambda>date_match date_str. if Some date_str \<noteq> user_bday then Some date_str else date_match)
       None dates"

text \<open>
  \<^verbatim>\<open>extract_test_date\<close>. The first argument is what \<^verbatim>\<open>datetime.now()\<close> returns, the date
  of the system clock.
\<close>

definition extract_test_date :: "pydate \<Rightarrow> ustr \<Rightarrow> ustr option \<Rightarrow> exn + ustr" where
  "extract_test_date now text user_bday =
     (case select_date (findall_dates text) user_bday of
        None \<Rightarrow> Inr (strftime_dmy now)
      | Some date_match \<Rightarrow>
          (case strptime_dmy date_match of
             Inl e \<Rightarrow> Inl e
           | Inr date_obj \<Rightarrow> Inr (strftime_ymd date_obj)))"

text \<open>The shape \<^verbatim>\<open>YYYY-MM-DD\<close>: four digits, a hyphen, two digits, a hyphen, two digits.\<close>

definition is_ymd :: "ustr \<Rightarrow> bool" where
  "is_ymd s =
     (length s = 10 \<and> isdecimal (s ! 0) \<and> isdecimal (s ! 1) \<and> isdecimal (s ! 2) \<and>
      isdecimal (s ! 3) \<and> s ! 4 = 45 \<and> isdecimal (s ! 5) \<and> isdecimal (s ! 6) \<and> s ! 7 = 45 \<and>
      isdecimal (s ! 8) \<and> isdecimal (s ! 9))"

section \<open>Storage queries\<close>

text \<open>
  \<^verbatim>\<open>InfluxDBService.get_patient_tests\<close> of \<^verbatim>\<open>services/database.py\<close>. The database client
  is not part of the repository: \<open>run\<close> stands for
  \<^verbatim>\<open>self.client.query(query).to_pandas()\<close>, which gives the rows of the answer or raises. A
  data frame is the list of its rows, \<^verbatim>\<open>pd.DataFrame()\<close> the empty list. An argument that
  is no \<^verbatim>\<open>datetime\<close> (it has no \<^verbatim>\<open>date()\<close>) and a test name that is no string are
  \<open>None\<close>.
\<close>

text \<open>
  \<^verbatim>\<open>str\<close> of a \<^verbatim>\<open>date\<close>, its ISO format, which Python writes itself with
  \<^verbatim>\<open>%04d-%02d-%02d\<close>.
\<close>

definition pad4 :: "nat \<Rightarrow> ustr" where
  "pad4 n = [digit_char (n div 1000), digit_char (n div 100), digit_char (n div 10), digit_char n]"

definition isoformat :: "pydate \<Rightarrow> ustr" where
  "isoformat dt = pad4 (year dt) @ 45 # pad2 (month dt) @ 45 # pad2 (day dt)"

definition date_of :: "pydate option \<Rightarrow> exn + pydate" where
  "date_of arg = (case arg of None \<Rightarrow> Inl AttributeError | Some dt \<Rightarrow> Inr dt)"

fun join_names :: "ustr option list \<Rightarrow> exn + ustr list" where
  "join_names [] = Inr []"
| "join_names (n # ns) =
     (case n of
        None \<Rightarrow> Inl TypeError
      | Some s \<Rightarrow> (case join_names ns of Inl e \<Rightarrow> Inl e | Inr ss \<Rightarrow> Inr (s # ss)))"

definition query_range :: "pydate \<Rightarrow> pydate \<Rightarrow> ustr" where
  "query_range s e =
     10 # ascii ''                SELECT *'' @
     10 # ascii ''                FROM '' @ 34 # ascii ''bloodwork'' @ 34 #
     10 # ascii ''                WHERE time >= '' @ 39 # isoformat s @ 39 #
     10 # ascii ''                AND time <= '' @ 39 # isoformat e @ 39 #
     10 # ascii ''            ''"

definition build_query :: "pydate option \<Rightarrow> pydate option \<Rightarrow> ustr option list option \<Rightarrow> exn + ustr" where
  "build_query start_date end_date test_names =
     (case date_of start_date of
        Inl e \<Rightarrow> Inl e
      | Inr s \<Rightarrow>
          (case date_of end_date of
             Inl e \<Rightarrow> Inl e
           | Inr e \<Rightarrow>
               (if test_names = None \<or> test_names = Some [] then
                  Inr (query_range s e @ ascii '' ORDER BY time DESC'')
                else
                  (case join_names (the test_names) of
                     Inl x \<Rightarrow> Inl x
                   | Inr ns \<Rightarrow>
                       Inr (query_range s e @ ascii '' AND test_name IN ('' @ 39 #
                            join (39 # ascii '', '' @ [39]) ns @ 39 # ascii '')'' @
                            ascii '' ORDER BY time DESC'')))))"

definition get_patient_tests_try ::
  "(ustr \<Rightarrow> exn + 'row list) \<Rightarrow> pydate option \<Rightarrow> pydate option \<Rightarrow> ustr option list option \<Rightarrow>
     exn + 'row list" where
  "get_patient_tests_try run start_date end_date test_names =
     (case build_query start_date end_date test_names of Inl e \<Rightarrow> Inl e | Inr query \<Rightarrow> run query)"

text \<open>The \<^verbatim>\<open>try\<close> with its handler \<^verbatim>\<open>except Exception: return pd.DataFrame()\<close>.\<close>

definition get_patient_tests ::
  "(ustr \<Rightarrow> exn + 'row list) \<Rightarrow> pydate option \<Rightarrow> pydate option \<Rightarrow> ustr option list option \<Rightarrow>
     exn + 'row list" where
  "get_patient_tests run start_date end_date test_names =
     (case get_patient_tests_try run start_date end_date test_names of
        Inl e \<Rightarrow> Inr []
      | Inr df \<Rightarrow> Inr df)"

section \<open>Notions of the specification\<close>

text \<open>A float that is not negative.\<close>

fun nonneg :: "pyfloat \<Rightarrow> bool" where
  "nonneg (Finite q) = (0 \<le> q)"
| "nonneg Infinity = True"

text \<open>A cell that is not empty after trimming.\<close>

fun meaningful :: "cell \<Rightarrow> bool" where
  "meaningful (Str s) = (strip s \<noteq> [])"
| "meaningful Null = False"
| "meaningful (NonStr b) = b"

text \<open>
  What a row contributes when it is processed as a data row: the result of
  \<open>parse_test_row\<close>, if the row has at least two cells and is accepted.
\<close>

definition data_row_result :: "ustr \<Rightarrow> cell list \<Rightarrow> BloodworkResult option" where
  "data_row_result d row =
     (if length row < 2 then None
      else (case parse_test_row row d of Inr (Some r) \<Rightarrow> Some r | _ \<Rightarrow> None))"

text \<open>
  A row of at least two cells whose joined upper-cased text contains one of the header
  markers. A row that cannot be joined has no such text.
\<close>

definition has_marker :: "ustr \<Rightarrow> bool" where
  "has_marker t = (contains t REZULTATI \<or> contains t VLERAT_REFERUESE)"

definition marker_row :: "cell list \<Rightarrow> bool" where
  "marker_row row =
     (2 \<le> length row \<and> (case row_text row of Inl e \<Rightarrow> False | Inr t \<Rightarrow> has_marker t))"

text \<open>
  A cell that \<^verbatim>\<open>cell or ''\<close> turns into a string: a string, \<^verbatim>\<open>None\<close>, or another object
  that is false.
\<close>

fun text_cell :: "cell \<Rightarrow> bool" where
  "text_cell (Str s) = True"
| "text_cell Null = True"
| "text_cell (NonStr b) = (\<not> b)"



text \<open>What the loop has found: a value comes from a part with a leading number.\<close>

definition found_in :: "ustr list \<Rightarrow> pyfloat option \<Rightarrow> bool" where
  "found_in parts v0 =
     (case v0 of None \<Rightarrow> True
      | Some v \<Rightarrow> \<exists>p\<in>set parts. \<exists>g. number_match p = Some g \<and> py_float g = Inr v)"

section \<open>The character classes on ASCII\<close>

lemma isspace_ascii: "c < 128 \<Longrightarrow> isspace c = ((9 \<le> c \<and> c \<le> 13) \<or> (28 \<le> c \<and> c \<le> 32))"
  by (auto simp: isspace_def space_ranges_def)

lemma isdecimal_ascii: "c < 128 \<Longrightarrow> isdecimal c = (48 \<le> c \<and> c \<le> 57)"
  by (auto simp: isdecimal_def decimal_ranges_def)

lemma decimal_value_ascii: "48 \<le> c \<Longrightarrow> c \<le> 57 \<Longrightarrow> decimal_value c = c - 48"
  by (simp add: decimal_value_def decimal_ranges_def)

lemma isdigit_cp_ascii: "c < 128 \<Longrightarrow> isdigit_cp c = (48 \<le> c \<and> c \<le> 57)"
  by (auto simp: isdigit_cp_def digit_ranges_def)

lemma is_word_ascii:
  "c < 128 \<Longrightarrow> is_word c =
     ((48 \<le> c \<and> c \<le> 57) \<or> (65 \<le> c \<and> c \<le> 90) \<or> c = 95 \<or> (97 \<le> c \<and> c \<le> 122))"
  by (auto simp: is_word_def word_ranges_def word_ranges_1_def)

lemma upper_cp_ascii: "c < 128 \<Longrightarrow> upper_cp c = (if 97 \<le> c \<and> c \<le> 122 then [c - 32] else [c])"
  by (auto simp: upper_cp_def upper_table_def upper_table_1_def; presburger)

section \<open>Properties of unit extraction\<close>



lemma first_unit_index:
  "i < length us \<Longrightarrow> contains r (us ! i) \<Longrightarrow> (\<forall>j<i. \<not> contains r (us ! j)) \<Longrightarrow>
     first_unit us r = Some (us ! i)"
proof (induction us arbitrary: i)
  case Nil
  then show ?case by simp
next
  case (Cons u us)
  show ?case
  proof (cases i)
    case 0
    with Cons.prems show ?thesis by simp
  next
    case (Suc k)
    with Cons.prems have "\<not> contains r u" by auto
    moreover have "first_unit us r = Some (us ! k)"
      using Cons.prems Suc by (intro Cons.IH) auto
    ultimately show ?thesis using Suc by simp
  qed
qed

lemma first_unit_none: "(\<forall>u\<in>set us. \<not> contains r u) \<Longrightarrow> first_unit us r = None"
  by (induction us) auto

lemma search_unit_run:
  assumes "run \<noteq> []" "list_all unit_char run" "\<not> list_ex unit_char pre"
    "post = [] \<or> \<not> unit_char (hd post)"
  shows "search_unit (pre @ run @ post) = Some run"
proof -
  have pre: "\<forall>c\<in>set pre. \<not> unit_char c" using assms(3) by (simp add: list_ex_iff)
  have run: "\<forall>c\<in>set run. unit_char c" using assms(2) by (simp add: list_all_iff)
  obtain x xs where x: "run = x # xs" using assms(1) by (cases run) auto
  have d: "dropWhile (\<lambda>c. \<not> unit_char c) (pre @ run @ post) = run @ post"
    using pre run x by (simp add: dropWhile_append3)
  have t: "takeWhile unit_char (run @ post) = run"
  proof (cases post)
    case Nil
    then show ?thesis using run by simp
  next
    case (Cons p ps)
    with assms(4) have "\<not> unit_char p" by simp
    then show ?thesis using run Cons by (simp add: takeWhile_tail)
  qed
  show ?thesis using d t x by (simp add: search_unit_def)
qed

lemma search_unit_none: "\<not> list_ex unit_char s \<Longrightarrow> search_unit s = None"
  by (simp add: search_unit_def list_ex_iff)

lemmas unit_eval = extract_unit_from_range_def units_def ascii_def starts_with_def
  search_unit_def unit_char_def

text \<open>
  C6. \<open>extract_unit_from_range\<close> checks the catalogue
  \<^verbatim>\<open>%\<close>, \<^verbatim>\<open>mg/dL\<close>, \<^verbatim>\<open>mg/dl\<close>, \<^verbatim>\<open>U/L\<close>, \<^verbatim>\<open>g/dL\<close>, \<^verbatim>\<open>g/dl\<close>, \<^verbatim>\<open>mmol/L\<close>,
  \<^verbatim>\<open>\<mu>g/dL\<close>, \<^verbatim>\<open>ng/mL\<close>, \<^verbatim>\<open>mL/min\<close> by substring containment and returns the first
  entry, in catalogue order, that the string contains, wherever it stands in the string.
  If the string contains none, the result is the first maximal run of characters of
  \<^verbatim>\<open>[a-zA-Z/\<mu>]\<close>: a non-empty run of such characters with none before it and none
  right behind it. If there is no such character the result is the empty string. In
  particular \<^verbatim>\<open>70-110 mg/dL\<close> gives \<^verbatim>\<open>mg/dL\<close>, \<^verbatim>\<open>negative\<close> gives \<^verbatim>\<open>negative\<close> and the
  empty string gives the empty string. The function is total: it has a result for every
  string and raises nothing.
\<close>

theorem extract_unit_from_range_catalogue_then_run:
  "units = [ascii ''%'', ascii ''mg/dL'', ascii ''mg/dl'', ascii ''U/L'', ascii ''g/dL'',
            ascii ''g/dl'', ascii ''mmol/L'', 956 # ascii ''g/dL'', ascii ''ng/mL'',
            ascii ''mL/min''] \<and>
   (\<forall>r i. i < length units \<longrightarrow> contains r (units ! i) \<longrightarrow>
      (\<forall>j<i. \<not> contains r (units ! j)) \<longrightarrow> extract_unit_from_range r = units ! i) \<and>
   (\<forall>pre run post. (\<forall>u\<in>set units. \<not> contains (pre @ run @ post) u) \<longrightarrow>
      run \<noteq> [] \<longrightarrow> list_all unit_char run \<longrightarrow> \<not> list_ex unit_char pre \<longrightarrow>
      (post = [] \<or> \<not> unit_char (hd post)) \<longrightarrow>
      extract_unit_from_range (pre @ run @ post) = run) \<and>
   (\<forall>r. (\<forall>u\<in>set units. \<not> contains r u) \<longrightarrow> \<not> list_ex unit_char r \<longrightarrow>
      extract_unit_from_range r = []) \<and>
   extract_unit_from_range (ascii ''70-110 mg/dL'') = ascii ''mg/dL'' \<and>
   extract_unit_from_range (ascii ''negative'') = ascii ''negative'' \<and>
   extract_unit_from_range [] = []"
proof (intro conjI allI impI)
  show "units = [ascii ''%'', ascii ''mg/dL'', ascii ''mg/dl'', ascii ''U/L'', ascii ''g/dL'',
            ascii ''g/dl'', ascii ''mmol/L'', 956 # ascii ''g/dL'', ascii ''ng/mL'',
            ascii ''mL/min'']"
    by (simp add: units_def)
next
  fix r i
  assume a: "i < length units" "contains r (units ! i)" "\<forall>j<i. \<not> contains r (units ! j)"
  have "units ! i \<noteq> []" using a(1) by (auto simp: units_def ascii_def nth_Cons' )
  with a(2) have "r \<noteq> []" by (cases r) auto
  then show "extract_unit_from_range r = units ! i"
    using first_unit_index [OF a] by (simp add: extract_unit_from_range_def)
next
  fix pre run post :: ustr
  assume a: "\<forall>u\<in>set units. \<not> contains (pre @ run @ post) u" "run \<noteq> []" "list_all unit_char run"
    "\<not> list_ex unit_char pre" "post = [] \<or> \<not> unit_char (hd post)"
  show "extract_unit_from_range (pre @ run @ post) = run"
    using first_unit_none [OF a(1)] search_unit_run [OF a(2-5)] a(2)
    by (simp add: extract_unit_from_range_def)
next
  fix r
  assume "\<forall>u\<in>set units. \<not> contains r u" "\<not> list_ex unit_char r"
  then show "extract_unit_from_range r = []"
    by (simp add: extract_unit_from_range_def first_unit_none search_unit_none)
qed (simp_all add: unit_eval)

theorem extract_unit_from_range_catalogue_then_run_witness:
  "contains (ascii ''5 g/dL of 10 mg/dL %'') (units ! 0) \<and>
   extract_unit_from_range (ascii ''5 g/dL of 10 mg/dL %'') = ascii ''%'' \<and>
   list_all (\<lambda>u. \<not> contains (ascii ''12 fl/cell'') u) units \<and>
   extract_unit_from_range (ascii ''12 fl/cell'') = ascii ''fl/cell'' \<and>
   list_all (\<lambda>u. \<not> contains (ascii ''4.0-10.0'') u) units \<and>
   extract_unit_from_range (ascii ''4.0-10.0'') = []"
proof -
  note t = extract_unit_from_range_catalogue_then_run
  note first = t [THEN conjunct2, THEN conjunct1, rule_format]
  note run = t [THEN conjunct2, THEN conjunct2, THEN conjunct1, rule_format]
  note none = t [THEN conjunct2, THEN conjunct2, THEN conjunct2, THEN conjunct1, rule_format]
  have h1: "contains (ascii ''5 g/dL of 10 mg/dL %'') (units ! 0)"
    by (simp add: unit_eval)
  have 1: "extract_unit_from_range (ascii ''5 g/dL of 10 mg/dL %'') = units ! 0"
    using h1 by (intro first) (simp_all add: units_def)
  have h2: "\<forall>u\<in>set units. \<not> contains (ascii ''12 '' @ ascii ''fl/cell'' @ []) u"
    by (simp add: unit_eval)
  have 2: "extract_unit_from_range (ascii ''12 '' @ ascii ''fl/cell'' @ []) = ascii ''fl/cell''"
    using h2 by (intro run) (simp_all add: ascii_def unit_char_def)
  have h3: "\<forall>u\<in>set units. \<not> contains (ascii ''4.0-10.0'') u"
    by (simp add: unit_eval)
  have 3: "extract_unit_from_range (ascii ''4.0-10.0'') = []"
    using h3 by (intro none) (simp_all add: ascii_def unit_char_def)
  show ?thesis using h1 1 h2 2 h3 3 by (simp add: units_def ascii_def list_all_iff)
qed

section \<open>Properties of row parsing\<close>

lemmas row_eval = parse_test_row_def parse_test_row_try_def parse_clean_row_def ascii_def
  strip_def isspace_ascii all_parts_def filtered_parts_def isdigit_def isdigit_cp_ascii
  scan_parts_def scan_step_def number_match_def isdecimal_ascii py_float_def digits_value_def
  decimal_value_ascii to_double_def floor_log2_def bit_length.simps round_half_even_def
  collect_def extract_unit_from_range_def units_def starts_with_def search_unit_def
  unit_char_def Let_def

lemmas table_eval = table_results_def find_header_row_def row_text_def upper_def upper_cp_ascii
  REZULTATI_def VLERAT_REFERUESE_def data_row_result_def

text \<open>
  C9. The all-digit parts are dropped before the value is looked for, so a reading that
  stands alone as digits is lost: for the row \<^verbatim>\<open>["Glucose", "95", "70-110"]\<close> and any date,
  \<open>parse_test_row\<close> drops \<^verbatim>\<open>95\<close>, takes the value 70.0 from the leading digits of
  \<^verbatim>\<open>70-110\<close> and sets the reference range to \<^verbatim>\<open>-110\<close>; the value is not 95.0.
\<close>

theorem parse_test_row_digit_reading_lost:
  "parse_test_row [Str (ascii ''Glucose''), Str (ascii ''95''), Str (ascii ''70-110'')] d =
     Inr (Some \<lparr>test_name = ascii ''Glucose'', val = Finite 70, unit = [], test_date = d,
                 reference_range = ascii ''-110''\<rparr>) \<and>
   filtered_parts (all_parts [ascii ''Glucose'', ascii ''95'', ascii ''70-110'']) =
     [ascii ''Glucose'', ascii ''70-110''] \<and>
   Finite 70 \<noteq> Finite 95"
  by (simp add: row_eval)

text \<open>
  Once the value is a float other than 0.0, a later part never replaces it and is appended
  to the reference range.
\<close>

lemma scan_step_truthy:
  "truthy (Some v) \<Longrightarrow>
     scan_step (Some v, rr) part = (Some v, if rr \<noteq> [] then rr @ 32 # part else part)"
  by (simp add: scan_step_def collect_def)

text \<open>
  C1. Only the first part with a leading number sets the value, a later such part never
  overwrites it, and every part after it is appended to the reference range, also when the
  first number is 0.0. The code tests \<^verbatim>\<open>if not value\<close> and \<^verbatim>\<open>if value\<close>, which take the
  float 0.0 for no value: in the row \<^verbatim>\<open>["Test", "0 x", "5 y"]\<close> the part \<^verbatim>\<open>0 x\<close> sets the
  value 0.0 and the reference range \<^verbatim>\<open>x\<close>, and the part \<^verbatim>\<open>5 y\<close> then overwrites both:
  the result has the value 5.0 and the reference range \<^verbatim>\<open>y\<close>, not 0.0 and \<^verbatim>\<open>x 5 y\<close>.
\<close>

theorem parse_test_row_zero_value_overwritten:
  "parse_test_row [Str (ascii ''Test''), Str (ascii ''0 x''), Str (ascii ''5 y'')] d =
     Inr (Some \<lparr>test_name = ascii ''Test'', val = Finite 5, unit = ascii ''y'', test_date = d,
                 reference_range = ascii ''y''\<rparr>) \<and>
   scan_step (None, []) (ascii ''0 x'') = (Some (Finite 0), ascii ''x'') \<and>
   scan_step (Some (Finite 0), ascii ''x'') (ascii ''5 y'') = (Some (Finite 5), ascii ''y'')"
  by (simp add: row_eval)

lemma to_double_nonneg: "nonneg (to_double n d)"
  by (simp add: to_double_def Let_def)

lemma py_float_nonneg: "py_float s = Inr v \<Longrightarrow> nonneg v"
  by (auto simp: py_float_def Let_def to_double_nonneg split: if_splits)

text \<open>A match of the pattern is a string that \<open>py_float\<close> reads.\<close>

lemma py_float_number_match: "number_match part = Some g \<Longrightarrow> \<exists>v. py_float g = Inr v"
proof -
  assume a: "number_match part = Some g"
  define d1 where "d1 = takeWhile isdecimal part"
  define r1 where "r1 = dropWhile isdecimal part"
  have ne: "d1 \<noteq> []" using a by (auto simp: number_match_def Let_def d1_def split: if_splits)
  have all: "\<forall>c\<in>set d1. isdecimal c" unfolding d1_def by (auto dest: set_takeWhileD)
  show ?thesis
  proof (cases "r1 \<noteq> [] \<and> hd r1 = 46")
    case True
    define d2 where "d2 = takeWhile isdecimal (tl r1)"
    have g: "g = d1 @ 46 # d2" using a True ne
      by (auto simp: number_match_def Let_def d1_def r1_def d2_def)
    have nd: "\<not> isdecimal 46" by (simp add: isdecimal_ascii)
    have t: "takeWhile isdecimal g = d1" using g all nd by (simp add: takeWhile_tail)
    have d: "dropWhile isdecimal g = 46 # d2" using g all nd by (simp add: dropWhile_append3)
    have "list_all isdecimal d2" unfolding d2_def by (auto simp: list_all_iff dest: set_takeWhileD)
    then show ?thesis using t d ne by (simp add: py_float_def Let_def)
  next
    case False
    then have g: "g = d1" using a ne by (auto simp: number_match_def Let_def d1_def r1_def)
    have tw: "takeWhile isdecimal g = g" and dw: "dropWhile isdecimal g = []"
      using g all by auto
    have gne: "g \<noteq> []" using g ne by simp
    show ?thesis unfolding py_float_def Let_def tw dw using gne by simp
  qed
qed

lemma collect_fst: "fst (collect st part) = fst st"
  by (cases st) (simp add: collect_def)

lemma scan_step_found:
  "found_in parts (fst st) \<Longrightarrow> found_in (parts @ [part]) (fst (scan_step st part))"
proof -
  assume a: "found_in parts (fst st)"
  obtain v0 rr where st: "st = (v0, rr)" by (cases st)
  have keep: "found_in (parts @ [part]) v0"
    using a st by (auto simp: found_in_def split: option.splits)
  show ?thesis
    using keep st
    by (auto simp: scan_step_def Let_def collect_def found_in_def split: option.splits sum.splits)
qed

lemma foldl_scan_found:
  "found_in seen (fst st) \<Longrightarrow> found_in (seen @ parts) (fst (foldl scan_step st parts))"
proof (induction parts arbitrary: st seen)
  case Nil
  then show ?case by simp
next
  case (Cons p ps)
  have "found_in ((seen @ [p]) @ ps) (fst (foldl scan_step (scan_step st p) ps))"
    by (rule Cons.IH) (rule scan_step_found [OF Cons.prems])
  then show ?case by simp
qed

lemma scan_parts_found: "found_in parts (fst (scan_parts parts))"
  using foldl_scan_found [of "[]" "(None, [])" parts]
  by (simp add: scan_parts_def found_in_def)

lemma scan_parts_value:
  "scan_parts parts = (Some v, rr) \<Longrightarrow>
     \<exists>p\<in>set parts. \<exists>g. number_match p = Some g \<and> py_float g = Inr v"
  using scan_parts_found [of parts] by (simp add: found_in_def)

lemma parse_clean_row_value:
  assumes "parse_clean_row clean d = Some r"
  shows "\<exists>p\<in>set (tl (filtered_parts (all_parts clean))). \<exists>g.
           number_match p = Some g \<and> py_float g = Inr (val r)"
proof -
  obtain v rr where s: "scan_parts (tl (filtered_parts (all_parts clean))) = (Some v, rr)"
    and r: "val r = v"
    using assms
    by (auto simp: parse_clean_row_def Let_def split: if_splits prod.splits option.splits)
  show ?thesis using scan_parts_value [OF s] r by simp
qed

lemma parse_test_row_Some:
  "parse_test_row row d = Inr (Some r) \<Longrightarrow>
     \<exists>clean. clean_row row = Inr clean \<and> parse_clean_row clean d = Some r"
  by (auto simp: parse_test_row_def parse_test_row_try_def split: sum.splits)


text \<open>
  C10. Every result of \<open>parse_test_row\<close> has a value that is not negative: the value is
  read from a match of \<^verbatim>\<open>^(\d+\.?\d*)\<close>, which has no sign.
\<close>

theorem parse_test_row_value_nonneg:
  "parse_test_row row d = Inr (Some r) \<Longrightarrow> nonneg (val r)"
proof -
  assume "parse_test_row row d = Inr (Some r)"
  then obtain clean where "parse_clean_row clean d = Some r"
    using parse_test_row_Some by blast
  then obtain g where "py_float g = Inr (val r)"
    using parse_clean_row_value by blast
  then show ?thesis by (rule py_float_nonneg)
qed

theorem parse_test_row_value_nonneg_witness:
  "parse_test_row [Str (ascii ''1''), Str (ascii ''WBC''), Str (ascii ''5.2 4.0-10.0'')] (ascii ''2024-03-15'') =
     Inr (Some \<lparr>test_name = ascii ''WBC'', val = Finite (5854679515581645 / 1125899906842624),
                 unit = [], test_date = ascii ''2024-03-15'',
                 reference_range = ascii ''4.0-10.0''\<rparr>) \<and>
   nonneg (Finite (5854679515581645 / 1125899906842624))"
proof -
  have e: "parse_test_row [Str (ascii ''1''), Str (ascii ''WBC''), Str (ascii ''5.2 4.0-10.0'')] (ascii ''2024-03-15'') =
     Inr (Some \<lparr>test_name = ascii ''WBC'', val = Finite (5854679515581645 / 1125899906842624),
                 unit = [], test_date = ascii ''2024-03-15'',
                 reference_range = ascii ''4.0-10.0''\<rparr>)"
    by (simp add: row_eval)
  show ?thesis using e parse_test_row_value_nonneg [OF e] by simp
qed


text \<open>Rows without a part with a leading number.\<close>

lemma scan_step_no_match: "number_match part = None \<Longrightarrow> scan_step (None, rr) part = (None, rr)"
  by (simp add: scan_step_def collect_def)

lemma foldl_scan_no_match:
  "\<forall>p\<in>set parts. number_match p = None \<Longrightarrow> foldl scan_step (None, rr) parts = (None, rr)"
  by (induction parts) (simp_all add: scan_step_no_match)

lemma parse_clean_row_no_match:
  "\<forall>p\<in>set (tl (filtered_parts (all_parts clean))). number_match p = None \<Longrightarrow>
     parse_clean_row clean d = None"
  by (simp add: parse_clean_row_def Let_def scan_parts_def foldl_scan_no_match)

text \<open>Rows with fewer than two meaningful cells.\<close>

lemma strip_Nil: "strip [] = []"
  by (simp add: strip_def)

lemma clean_cell_meaningful: "clean_cell c = Inr s \<Longrightarrow> strip s \<noteq> [] \<Longrightarrow> meaningful c"
  by (cases c) (auto simp: strip_Nil split: if_splits)

lemma clean_row_meaningful:
  "clean_row row = Inr clean \<Longrightarrow>
     length (filter (\<lambda>c. strip c \<noteq> []) clean) \<le> length (filter meaningful row)"
proof (induction row arbitrary: clean)
  case Nil
  then show ?case by simp
next
  case (Cons c cs)
  from Cons.prems obtain s ss where s: "clean_cell c = Inr s" and ss: "clean_row cs = Inr ss"
    and clean: "clean = s # ss"
    by (auto split: sum.splits)
  have "length (filter (\<lambda>c. strip c \<noteq> []) ss) \<le> length (filter meaningful cs)"
    by (rule Cons.IH [OF ss])
  then show ?case using clean clean_cell_meaningful [OF s] by auto
qed

lemma parse_test_row_cases:
  "(\<exists>e. clean_row row = Inl e \<and> parse_test_row row d = Inr None) \<or>
   (\<exists>clean. clean_row row = Inr clean \<and> parse_test_row row d = Inr (parse_clean_row clean d))"
  by (cases "clean_row row") (simp_all add: parse_test_row_def parse_test_row_try_def)

text \<open>No exception leaves \<open>parse_test_row\<close> or the loop over the rows.\<close>

lemma parse_test_row_returns: "\<exists>r. parse_test_row row d = Inr r"
  by (simp add: parse_test_row_def split: sum.splits)

lemma process_rows_map_filter: "process_rows d rows = Inr (List.map_filter (data_row_result d) rows)"
proof (induction rows)
  case Nil
  then show ?case by simp
next
  case (Cons row rows)
  obtain r where r: "parse_test_row row d = Inr r" using parse_test_row_returns by blast
  show ?case
  proof (cases "length row < 2")
    case True
    then show ?thesis using Cons by (simp add: data_row_result_def)
  next
    case False
    then have "row \<noteq> []" by auto
    then show ?thesis using False Cons r
      by (cases r) (simp_all add: data_row_result_def)
  qed
qed

lemma map_filter_append: "List.map_filter f (xs @ ys) = List.map_filter f xs @ List.map_filter f ys"
  by (simp add: List.map_filter_def)

text \<open>
  C5. \<open>parse_test_row\<close> returns \<^verbatim>\<open>None\<close> for every row with fewer than two cells that are
  not empty after trimming, and for every row in which, after flattening and dropping the
  all-digit parts, no part after the first matches the leading-number pattern. A result is
  only ever made with a value: it is the float of such a match in a part after the first.
\<close>

theorem parse_test_row_absent_without_value:
  "(length (filter meaningful row) < 2 \<longrightarrow> parse_test_row row d = Inr None) \<and>
   (\<forall>clean. clean_row row = Inr clean \<longrightarrow>
      (\<forall>p\<in>set (tl (filtered_parts (all_parts clean))). number_match p = None) \<longrightarrow>
      parse_test_row row d = Inr None) \<and>
   (\<forall>r. parse_test_row row d = Inr (Some r) \<longrightarrow>
      (\<exists>clean. clean_row row = Inr clean \<and>
         (\<exists>p\<in>set (tl (filtered_parts (all_parts clean))). \<exists>g.
            number_match p = Some g \<and> py_float g = Inr (val r))))"
proof (intro conjI allI impI)
  assume few: "length (filter meaningful row) < 2"
  from parse_test_row_cases [of row d] show "parse_test_row row d = Inr None"
  proof (elim disjE exE conjE)
    fix clean
    assume c: "clean_row row = Inr clean" and p: "parse_test_row row d = Inr (parse_clean_row clean d)"
    have "length (filter (\<lambda>c. strip c \<noteq> []) clean) \<le> 1"
      using clean_row_meaningful [OF c] few by simp
    then have "parse_clean_row clean d = None" by (simp add: parse_clean_row_def)
    with p show ?thesis by simp
  qed simp
next
  fix clean
  assume c: "clean_row row = Inr clean"
    and n: "\<forall>p\<in>set (tl (filtered_parts (all_parts clean))). number_match p = None"
  show "parse_test_row row d = Inr None"
    using c parse_clean_row_no_match [OF n]
    by (simp add: parse_test_row_def parse_test_row_try_def)
next
  fix r
  assume "parse_test_row row d = Inr (Some r)"
  then obtain clean where c: "clean_row row = Inr clean" and p: "parse_clean_row clean d = Some r"
    using parse_test_row_Some by blast
  show "\<exists>clean. clean_row row = Inr clean \<and>
         (\<exists>p\<in>set (tl (filtered_parts (all_parts clean))). \<exists>g.
            number_match p = Some g \<and> py_float g = Inr (val r))"
    using c parse_clean_row_value [OF p] by blast
qed


theorem parse_test_row_absent_without_value_witness:
  "length (filter meaningful [Str (ascii ''Glucose''), Str (ascii ''  ''), Null]) < 2 \<and>
   parse_test_row [Str (ascii ''Glucose''), Str (ascii ''  ''), Null] (ascii ''2024-03-15'') = Inr None \<and>
   clean_row [Str (ascii ''Glucose''), Str (ascii '' high ''), Str (ascii ''n/a'')] =
     Inr [ascii ''Glucose'', ascii ''high'', ascii ''n/a''] \<and>
   list_all (\<lambda>p. number_match p = None)
     (tl (filtered_parts (all_parts [ascii ''Glucose'', ascii ''high'', ascii ''n/a'']))) \<and>
   parse_test_row [Str (ascii ''Glucose''), Str (ascii '' high ''), Str (ascii ''n/a'')]
     (ascii ''2024-03-15'') = Inr None \<and>
   parse_test_row [Str (ascii ''Glucose''), Str (ascii ''95 70-110'')] (ascii ''2024-03-15'') =
     Inr (Some \<lparr>test_name = ascii ''Glucose'', val = Finite 95, unit = [],
                 test_date = ascii ''2024-03-15'', reference_range = ascii ''70-110''\<rparr>) \<and>
   number_match (ascii ''95 70-110'') = Some (ascii ''95'') \<and>
   py_float (ascii ''95'') = Inr (Finite 95)"
proof -
  note t = parse_test_row_absent_without_value
  have h1: "length (filter meaningful [Str (ascii ''Glucose''), Str (ascii ''  ''), Null]) < 2"
    by (simp add: row_eval)
  have 1: "parse_test_row [Str (ascii ''Glucose''), Str (ascii ''  ''), Null] (ascii ''2024-03-15'') = Inr None"
    using h1 by (rule t [THEN conjunct1, rule_format])
  have h2: "clean_row [Str (ascii ''Glucose''), Str (ascii '' high ''), Str (ascii ''n/a'')] =
     Inr [ascii ''Glucose'', ascii ''high'', ascii ''n/a'']"
    by (simp add: row_eval)
  have h3: "\<forall>p\<in>set (tl (filtered_parts (all_parts [ascii ''Glucose'', ascii ''high'', ascii ''n/a'']))).
     number_match p = None"
    by (simp add: row_eval)
  have 2: "parse_test_row [Str (ascii ''Glucose''), Str (ascii '' high ''), Str (ascii ''n/a'')]
     (ascii ''2024-03-15'') = Inr None"
    using t [THEN conjunct2, THEN conjunct1] h2 h3 by blast
  have h4: "parse_test_row [Str (ascii ''Glucose''), Str (ascii ''95 70-110'')] (ascii ''2024-03-15'') =
     Inr (Some \<lparr>test_name = ascii ''Glucose'', val = Finite 95, unit = [],
                 test_date = ascii ''2024-03-15'', reference_range = ascii ''70-110''\<rparr>)"
    by (simp add: row_eval)
  have 3: "\<exists>clean. clean_row [Str (ascii ''Glucose''), Str (ascii ''95 70-110'')] = Inr clean \<and>
         (\<exists>p\<in>set (tl (filtered_parts (all_parts clean))). \<exists>g.
            number_match p = Some g \<and> py_float g = Inr (Finite 95))"
    using t [THEN conjunct2, THEN conjunct2, rule_format, OF h4] by simp
  have 4: "number_match (ascii ''95 70-110'') = Some (ascii ''95'')"
    "py_float (ascii ''95'') = Inr (Finite 95)"
    by (simp_all add: row_eval)
  show ?thesis using h1 1 h2 h3 2 h4 3 4 by (simp add: list_all_iff)
qed

text \<open>The assembly of a record raises exactly when a header search raises.\<close>

lemma tables_results_raises:
  "(\<exists>e. tables_results d ts = Inl e) = list_ex (\<lambda>t. \<exists>e. find_header_row t = Inl e) ts"
proof (induction ts)
  case Nil
  then show ?case by simp
next
  case (Cons t ts)
  show ?case
  proof (cases "find_header_row t")
    case (Inl e)
    then show ?thesis by (simp add: table_results_def)
  next
    case (Inr h)
    then have "table_results d t = Inr (List.map_filter (data_row_result d) (drop ((case h of None \<Rightarrow> 0 | Some i \<Rightarrow> i) + 1) t))"
      by (simp add: table_results_def process_rows_map_filter)
    then show ?thesis using Cons.IH Inr by (auto split: sum.splits)
  qed
qed

text \<open>
  C7 (as the code has it). \<open>parse_test_row\<close> never raises: for every row, also one with
  null cells or cells that are no strings, an exception inside is caught and the row is
  rejected. So the loop over the data rows never raises either, and a row on which parsing
  fails takes nothing from the results of the rows before and after it. The header search
  is outside \<open>parse_test_row\<close>: the assembly of a table raises exactly when
  \<open>find_header_row\<close> raises on it, and the assembly of a record exactly when it does so
  on one of the tables.
\<close>

theorem parse_test_row_never_raises:
  "(\<exists>r. parse_test_row row d = Inr r) \<and>
   (\<forall>e. parse_test_row_try row d = Inl e \<longrightarrow> parse_test_row row d = Inr None) \<and>
   (\<exists>rs. process_rows d rows = Inr rs) \<and>
   (\<forall>e rs1 rs2. parse_test_row_try row d = Inl e \<longrightarrow> process_rows d rows1 = Inr rs1 \<longrightarrow>
      process_rows d rows2 = Inr rs2 \<longrightarrow> process_rows d (rows1 @ row # rows2) = Inr (rs1 @ rs2)) \<and>
   (\<forall>e. (table_results d table = Inl e) = (find_header_row table = Inl e)) \<and>
   (\<exists>e. parse_blood_work_table extracted name = Inl e) =
     list_ex (\<lambda>t. \<exists>e. find_header_row t = Inl e) (tables extracted)"
proof (intro conjI allI impI)
  show "\<exists>r. parse_test_row row d = Inr r" by (rule parse_test_row_returns)
next
  fix e assume "parse_test_row_try row d = Inl e"
  then show "parse_test_row row d = Inr None" by (simp add: parse_test_row_def)
next
  show "\<exists>rs. process_rows d rows = Inr rs" by (simp add: process_rows_map_filter)
next
  fix e rs1 rs2
  assume e: "parse_test_row_try row d = Inl e" and 1: "process_rows d rows1 = Inr rs1"
    and 2: "process_rows d rows2 = Inr rs2"
  have "data_row_result d row = None"
    using e by (simp add: data_row_result_def parse_test_row_def)
  then show "process_rows d (rows1 @ row # rows2) = Inr (rs1 @ rs2)"
    using 1 2 by (simp add: process_rows_map_filter map_filter_append)
next
  fix e
  show "(table_results d table = Inl e) = (find_header_row table = Inl e)"
    by (cases "find_header_row table") (simp_all add: table_results_def process_rows_map_filter)
next
  have "(\<exists>e. parse_blood_work_table extracted name = Inl e) =
      (\<exists>e. tables_results (date extracted) (tables extracted) = Inl e)"
    by (simp add: parse_blood_work_table_def split: sum.splits)
  then show "(\<exists>e. parse_blood_work_table extracted name = Inl e) =
     list_ex (\<lambda>t. \<exists>e. find_header_row t = Inl e) (tables extracted)"
    by (simp add: tables_results_raises)
qed

theorem parse_test_row_never_raises_witness:
  "parse_test_row_try [Str (ascii ''WBC''), NonStr True] (ascii ''2024-03-15'') = Inl AttributeError \<and>
   parse_test_row [Str (ascii ''WBC''), NonStr True] (ascii ''2024-03-15'') = Inr None \<and>
   process_rows (ascii ''2024-03-15'')
     ([[Str (ascii ''Glucose''), Str (ascii ''95 70-110'')]] @
      [Str (ascii ''WBC''), NonStr True] #
      [[Str (ascii ''HGB''), Str (ascii ''14 g/dL'')]]) =
     Inr ([\<lparr>test_name = ascii ''Glucose'', val = Finite 95, unit = [],
             test_date = ascii ''2024-03-15'', reference_range = ascii ''70-110''\<rparr>] @
          [\<lparr>test_name = ascii ''HGB'', val = Finite 14, unit = ascii ''g/dL'',
             test_date = ascii ''2024-03-15'', reference_range = ascii ''g/dL''\<rparr>]) \<and>
   find_header_row [[Str (ascii ''Rezultati''), Null], [Str (ascii ''WBC''), NonStr True]] =
     Inr (Some 0) \<and>
   table_results (ascii ''2024-03-15'')
     [[Str (ascii ''Rezultati''), Null], [Str (ascii ''WBC''), NonStr True]] = Inr []"
proof -
  note t = parse_test_row_never_raises
  have h1: "parse_test_row_try [Str (ascii ''WBC''), NonStr True] (ascii ''2024-03-15'') = Inl AttributeError"
    by (simp add: row_eval)
  have 1: "parse_test_row [Str (ascii ''WBC''), NonStr True] (ascii ''2024-03-15'') = Inr None"
    using h1 by (rule t [THEN conjunct2, THEN conjunct1, rule_format])
  have h2: "process_rows (ascii ''2024-03-15'') [[Str (ascii ''Glucose''), Str (ascii ''95 70-110'')]] =
     Inr [\<lparr>test_name = ascii ''Glucose'', val = Finite 95, unit = [],
             test_date = ascii ''2024-03-15'', reference_range = ascii ''70-110''\<rparr>]"
    by (simp add: row_eval)
  have h3: "process_rows (ascii ''2024-03-15'') [[Str (ascii ''HGB''), Str (ascii ''14 g/dL'')]] =
     Inr [\<lparr>test_name = ascii ''HGB'', val = Finite 14, unit = ascii ''g/dL'',
             test_date = ascii ''2024-03-15'', reference_range = ascii ''g/dL''\<rparr>]"
    by (simp add: row_eval)
  note 2 = t [THEN conjunct2, THEN conjunct2, THEN conjunct2, THEN conjunct1, rule_format, OF h1 h2 h3]
  have h4: "find_header_row [[Str (ascii ''Rezultati''), Null], [Str (ascii ''WBC''), NonStr True]] =
     Inr (Some 0)"
    by (simp add: table_eval ascii_def starts_with_def)
  have 3: "table_results (ascii ''2024-03-15'')
     [[Str (ascii ''Rezultati''), Null], [Str (ascii ''WBC''), NonStr True]] = Inr []"
    using h4 1 by (simp add: table_results_def)
  show ?thesis using h1 1 2 h4 3 by simp
qed

text \<open>
  C7 as stated has no bad row abort the assembly of the table or record. With a header row
  \<^verbatim>\<open>["Name", "Value"]\<close> without a marker and the row \<^verbatim>\<open>["Glucose", "95 70-110"]\<close> the record
  has one result; with the further row \<^verbatim>\<open>["WBC", x]\<close>, where \<^verbatim>\<open>x\<close> is a number that is not
  0, \<open>parse_test_row\<close> rejects that row, but the header search raises \<^verbatim>\<open>TypeError\<close> on it
  and no record is made.
\<close>

theorem parse_blood_work_table_bad_row_counterexample:
  "parse_test_row [Str (ascii ''WBC''), NonStr True] (ascii ''2024-03-15'') = Inr None \<and>
   parse_blood_work_table
     \<lparr>full_text = [],
      tables = [[[Str (ascii ''Name''), Str (ascii ''Value'')],
                 [Str (ascii ''Glucose''), Str (ascii ''95 70-110'')]]],
      date = ascii ''2024-03-15''\<rparr> None =
     Inr \<lparr>patient_name = None, record_date = ascii ''2024-03-15'',
          results = [\<lparr>test_name = ascii ''Glucose'', val = Finite 95, unit = [],
                       test_date = ascii ''2024-03-15'', reference_range = ascii ''70-110''\<rparr>]\<rparr> \<and>
   parse_blood_work_table
     \<lparr>full_text = [],
      tables = [[[Str (ascii ''Name''), Str (ascii ''Value'')],
                 [Str (ascii ''Glucose''), Str (ascii ''95 70-110'')],
                 [Str (ascii ''WBC''), NonStr True]]],
      date = ascii ''2024-03-15''\<rparr> None = Inl TypeError"
proof -
  have 1: "parse_test_row [Str (ascii ''WBC''), NonStr True] (ascii ''2024-03-15'') = Inr None"
    by (simp add: row_eval)
  have h: "find_header_row [[Str (ascii ''Name''), Str (ascii ''Value'')],
                 [Str (ascii ''Glucose''), Str (ascii ''95 70-110'')]] = Inr None"
    by (simp add: table_eval ascii_def starts_with_def)
  have r: "parse_test_row [Str (ascii ''Glucose''), Str (ascii ''95 70-110'')] (ascii ''2024-03-15'') =
     Inr (Some \<lparr>test_name = ascii ''Glucose'', val = Finite 95, unit = [],
                       test_date = ascii ''2024-03-15'', reference_range = ascii ''70-110''\<rparr>)"
    by (simp add: row_eval)
  have 2: "table_results (ascii ''2024-03-15'') [[Str (ascii ''Name''), Str (ascii ''Value'')],
                 [Str (ascii ''Glucose''), Str (ascii ''95 70-110'')]] =
     Inr [\<lparr>test_name = ascii ''Glucose'', val = Finite 95, unit = [],
                       test_date = ascii ''2024-03-15'', reference_range = ascii ''70-110''\<rparr>]"
    using h r by (simp add: table_results_def)
  have 3: "find_header_row [[Str (ascii ''Name''), Str (ascii ''Value'')],
                 [Str (ascii ''Glucose''), Str (ascii ''95 70-110'')],
                 [Str (ascii ''WBC''), NonStr True]] = Inl TypeError"
    by (simp add: table_eval ascii_def starts_with_def)
  show ?thesis using 1 2 3 by (simp add: parse_blood_work_table_def table_results_def)
qed

section \<open>Properties of date resolution\<close>

lemmas date_eval = extract_test_date_def select_date_def findall_dates_def date_at_def
  date_shape_def is_word_ascii isdecimal_ascii ascii_def strptime_dmy_def digits_value_def
  decimal_value_ascii days_in_month_def is_leap_def strftime_ymd_def strftime_dmy_def
  pad2_def dec_str.simps digit_char_def is_ymd_def Let_def













text \<open>
  A date found in the text is returned in the format \<^verbatim>\<open>YYYY-MM-DD\<close> when its year has four
  digits without a leading zero.
\<close>

lemma digit_char_decimal: "isdecimal (digit_char n)"
proof -
  have "n mod 10 < 10" by simp
  then show ?thesis unfolding digit_char_def by (simp add: isdecimal_ascii)
qed

lemma dec_str_four:
  assumes "1000 \<le> n" "n < 10000"
  shows "dec_str n = [digit_char (n div 1000), digit_char (n div 100), digit_char (n div 10), digit_char n]"
proof -
  have a: "dec_str n = dec_str (n div 10) @ [digit_char n]"
    using assms by (subst dec_str.simps) simp
  have b: "dec_str (n div 10) = dec_str (n div 100) @ [digit_char (n div 10)]"
    using assms by (subst dec_str.simps) (simp add: div_mult2_eq [symmetric])
  have c: "dec_str (n div 100) = dec_str (n div 1000) @ [digit_char (n div 100)]"
    using assms by (subst dec_str.simps) (simp add: div_mult2_eq [symmetric])
  have d: "dec_str (n div 1000) = [digit_char (n div 1000)]"
    using assms by (subst dec_str.simps) simp
  show ?thesis by (simp add: a b c d)
qed

lemma strftime_ymd_is_ymd: "1000 \<le> year dt \<Longrightarrow> year dt < 10000 \<Longrightarrow> is_ymd (strftime_ymd dt)"
  by (simp add: is_ymd_def strftime_ymd_def pad2_def dec_str_four digit_char_decimal)

text \<open>
  C3. The string that \<open>extract_test_date\<close> returns has the format \<^verbatim>\<open>YYYY-MM-DD\<close> for every
  text and birthday, also in the fallback taken when the text has no date other than the
  birthday. The fallback of the code formats the current date with \<^verbatim>\<open>%d/%m/%Y\<close>: for
  every clock and birthday the empty text gives a string that is not of the format, on the
  3rd of November 2026 the string \<^verbatim>\<open>03/11/2026\<close>, while a date found in the text comes out
  as \<^verbatim>\<open>2024-03-15\<close>.
\<close>

theorem extract_test_date_fallback_not_ymd:
  "extract_test_date now [] user_bday = Inr (strftime_dmy now) \<and>
   \<not> is_ymd (strftime_dmy now) \<and>
   extract_test_date \<lparr>year = 2026, month = 11, day = 3\<rparr> [] None = Inr (ascii ''03/11/2026'') \<and>
   \<not> is_ymd (ascii ''03/11/2026'') \<and>
   extract_test_date now (ascii ''15/03/2024'') None = Inr (ascii ''2024-03-15'') \<and>
   is_ymd (ascii ''2024-03-15'')"
proof (intro conjI)
  show "\<not> is_ymd (strftime_dmy now)"
    by (simp add: is_ymd_def strftime_dmy_def pad2_def isdecimal_ascii)
qed (simp_all add: date_eval)

text \<open>A year below 1000 comes out without padding.\<close>

lemma extract_test_date_year_999: "extract_test_date now (ascii ''19/10/0999'') None = Inr (ascii ''999-10-19'')"
  by (simp add: date_eval)

section \<open>Properties of table assembly\<close>

text \<open>Cells that are strings or false are joined without an exception.\<close>

lemma cells_or_empty_text: "list_all text_cell row \<Longrightarrow> \<exists>ss. cells_or_empty row = Inr ss"
proof (induction row)
  case Nil
  then show ?case by simp
next
  case (Cons c cs)
  then obtain ss where "cells_or_empty cs = Inr ss" by auto
  moreover obtain s where "cell_or_empty c = Inr s" using Cons.prems by (cases c) auto
  ultimately show ?case by simp
qed

lemma row_text_text: "list_all text_cell row \<Longrightarrow> \<exists>t. row_text row = Inr t"
  using cells_or_empty_text [of row] by (auto simp: row_text_def)

lemma find_header_from_none:
  "list_all (\<lambda>row. length row < 2 \<or> list_all text_cell row) table \<Longrightarrow>
     \<not> list_ex marker_row table \<Longrightarrow> find_header_from i table = Inr None"
proof (induction table arbitrary: i)
  case Nil
  then show ?case by simp
next
  case (Cons row rows)
  have rest: "find_header_from (Suc i) rows = Inr None"
    using Cons.prems by (intro Cons.IH) auto
  show ?case
  proof (cases "2 \<le> length row")
    case True
    then have "list_all text_cell row" using Cons.prems(1) by auto
    then obtain t where t: "row_text row = Inr t" using row_text_text by blast
    have "\<not> marker_row row" using Cons.prems(2) by simp
    then have "\<not> has_marker t" using True t by (simp add: marker_row_def)
    then show ?thesis using True t rest by (auto simp: has_marker_def)
  next
    case False
    then show ?thesis using rest by auto
  qed
qed

text \<open>A row of at least two cells with a cell that cannot be joined stops the header search.\<close>

lemma find_header_from_raises:
  "2 \<le> length row \<Longrightarrow> \<not> list_all text_cell row \<Longrightarrow> find_header_from i [row] = Inl TypeError"
proof -
  assume l: "2 \<le> length row" and n: "\<not> list_all text_cell row"
  have "cells_or_empty row = Inl TypeError" using n
  proof (induction row)
    case Nil
    then show ?case by simp
  next
    case (Cons c cs)
    show ?case
    proof (cases "text_cell c")
      case True
      then obtain s where "cell_or_empty c = Inr s" by (cases c) auto
      moreover have "cells_or_empty cs = Inl TypeError" using Cons True by simp
      ultimately show ?thesis by simp
    next
      case False
      then have "cell_or_empty c = Inl TypeError" by (cases c) auto
      then show ?thesis by simp
    qed
  qed
  then have "row_text row = Inl TypeError" by (simp add: row_text_def)
  moreover have "row \<noteq> []" using l by auto
  ultimately show ?thesis using l by simp
qed

lemmas marker_eval = marker_row_def has_marker_def row_text_def upper_def upper_cp_ascii
  REZULTATI_def VLERAT_REFERUESE_def starts_with_def

text \<open>
  C2 (as the code has it). Take a table in which no row of at least two cells has joined
  upper-cased text containing \<^verbatim>\<open>REZULTATI\<close> or \<^verbatim>\<open>VLERAT REFERUESE\<close>, and in which the cells
  of every row of at least two cells are strings, \<^verbatim>\<open>None\<close> or other false values (a cell
  that is a true non-string makes the join of the header search raise). The table is not
  rejected: the header search returns \<^verbatim>\<open>None\<close>, row 0 is taken as the header, and every
  row after row 0 is processed as a data row. Row 0 itself is not processed.
\<close>

theorem table_without_header_skips_row_0:
  "list_all (\<lambda>row. length row < 2 \<or> list_all text_cell row) table \<longrightarrow>
   \<not> list_ex marker_row table \<longrightarrow>
     find_header_row table = Inr None \<and>
     table_results d table = Inr (List.map_filter (data_row_result d) (drop 1 table)) \<and>
     parse_blood_work_table \<lparr>full_text = ft, tables = [table], date = d\<rparr> name =
       Inr \<lparr>patient_name = name, record_date = d,
            results = List.map_filter (data_row_result d) (drop 1 table)\<rparr>"
proof (intro impI)
  assume "list_all (\<lambda>row. length row < 2 \<or> list_all text_cell row) table"
    and "\<not> list_ex marker_row table"
  then have h: "find_header_row table = Inr None"
    by (simp add: find_header_row_def find_header_from_none)
  then have t: "table_results d table = Inr (List.map_filter (data_row_result d) (drop 1 table))"
    by (simp add: table_results_def process_rows_map_filter)
  show "find_header_row table = Inr None \<and>
     table_results d table = Inr (List.map_filter (data_row_result d) (drop 1 table)) \<and>
     parse_blood_work_table \<lparr>full_text = ft, tables = [table], date = d\<rparr> name =
       Inr \<lparr>patient_name = name, record_date = d,
            results = List.map_filter (data_row_result d) (drop 1 table)\<rparr>"
    using h t by (simp add: parse_blood_work_table_def)
qed

theorem table_without_header_skips_row_0_witness:
  "list_all (\<lambda>row. length row < 2 \<or> list_all text_cell row)
     [[Str (ascii ''Test''), Null], [Str (ascii ''WBC''), Str (ascii ''5.2 4.0-10.0'')]] \<and>
   \<not> list_ex marker_row
     [[Str (ascii ''Test''), Null], [Str (ascii ''WBC''), Str (ascii ''5.2 4.0-10.0'')]] \<and>
   table_results (ascii ''2024-03-15'')
     [[Str (ascii ''Test''), Null], [Str (ascii ''WBC''), Str (ascii ''5.2 4.0-10.0'')]] =
     Inr [\<lparr>test_name = ascii ''WBC'', val = Finite (5854679515581645 / 1125899906842624),
            unit = [], test_date = ascii ''2024-03-15'', reference_range = ascii ''4.0-10.0''\<rparr>]"
proof -
  have c: "list_all (\<lambda>row. length row < 2 \<or> list_all text_cell row)
     [[Str (ascii ''Test''), Null], [Str (ascii ''WBC''), Str (ascii ''5.2 4.0-10.0'')]]"
    by simp
  have h: "\<not> list_ex marker_row
     [[Str (ascii ''Test''), Null], [Str (ascii ''WBC''), Str (ascii ''5.2 4.0-10.0'')]]"
    by (simp add: marker_eval ascii_def)
  have e: "List.map_filter (data_row_result (ascii ''2024-03-15''))
     (drop 1 [[Str (ascii ''Test''), Null], [Str (ascii ''WBC''), Str (ascii ''5.2 4.0-10.0'')]]) =
     [\<lparr>test_name = ascii ''WBC'', val = Finite (5854679515581645 / 1125899906842624),
            unit = [], test_date = ascii ''2024-03-15'', reference_range = ascii ''4.0-10.0''\<rparr>]"
    by (simp add: data_row_result_def row_eval)
  show ?thesis
    using c h e table_without_header_skips_row_0 [rule_format, OF c h, of "ascii ''2024-03-15''"]
    by simp
qed

text \<open>
  C2 as stated has every row processed as a data row, row 0 included. The table with the
  single row \<^verbatim>\<open>["WBC", "5.2 4.0-10.0"]\<close> has no header row; processed as a data row, its row
  0 gives a result, but the table contributes none.
\<close>

theorem table_without_header_row_0_counterexample:
  "\<not> list_ex marker_row [[Str (ascii ''WBC''), Str (ascii ''5.2 4.0-10.0'')]] \<and>
   find_header_row [[Str (ascii ''WBC''), Str (ascii ''5.2 4.0-10.0'')]] = Inr None \<and>
   data_row_result (ascii ''2024-03-15'') [Str (ascii ''WBC''), Str (ascii ''5.2 4.0-10.0'')] =
     Some \<lparr>test_name = ascii ''WBC'', val = Finite (5854679515581645 / 1125899906842624),
            unit = [], test_date = ascii ''2024-03-15'', reference_range = ascii ''4.0-10.0''\<rparr> \<and>
   table_results (ascii ''2024-03-15'') [[Str (ascii ''WBC''), Str (ascii ''5.2 4.0-10.0'')]] = Inr [] \<and>
   table_results (ascii ''2024-03-15'') [[Str (ascii ''WBC''), Str (ascii ''5.2 4.0-10.0'')]] \<noteq>
     Inr (List.map_filter (data_row_result (ascii ''2024-03-15''))
            [[Str (ascii ''WBC''), Str (ascii ''5.2 4.0-10.0'')]])"
proof -
  have p: "\<not> list_ex marker_row [[Str (ascii ''WBC''), Str (ascii ''5.2 4.0-10.0'')]]"
    by (simp add: marker_eval ascii_def)
  have h: "find_header_row [[Str (ascii ''WBC''), Str (ascii ''5.2 4.0-10.0'')]] = Inr None"
    by (simp add: table_eval ascii_def starts_with_def)
  have r: "data_row_result (ascii ''2024-03-15'') [Str (ascii ''WBC''), Str (ascii ''5.2 4.0-10.0'')] =
     Some \<lparr>test_name = ascii ''WBC'', val = Finite (5854679515581645 / 1125899906842624),
            unit = [], test_date = ascii ''2024-03-15'', reference_range = ascii ''4.0-10.0''\<rparr>"
    by (simp add: data_row_result_def row_eval)
  have t: "table_results (ascii ''2024-03-15'') [[Str (ascii ''WBC''), Str (ascii ''5.2 4.0-10.0'')]] = Inr []"
    using h by (simp add: table_results_def)
  show ?thesis using p h r t by simp
qed

section \<open>Properties of the storage query\<close>

text \<open>
  C8. On any failure while the query is built or run, \<open>get_patient_tests\<close> returns the
  empty data frame and does not propagate the error, so its caller cannot tell a failed
  query from one that found no data: a client that fails and a client that answers with no
  rows give the same result.
\<close>

theorem get_patient_tests_degrades_to_empty:
  "(\<forall>x. build_query s e n = Inl x \<longrightarrow> get_patient_tests run s e n = Inr []) \<and>
   (\<forall>q x. build_query s e n = Inr q \<longrightarrow> run q = Inl x \<longrightarrow> get_patient_tests run s e n = Inr []) \<and>
   (\<forall>q. build_query s e n = Inr q \<longrightarrow> run q = Inr [] \<longrightarrow> get_patient_tests run s e n = Inr []) \<and>
   (\<exists>df. get_patient_tests run s e n = Inr df) \<and>
   get_patient_tests (\<lambda>q. Inl QueryError) s e n = get_patient_tests (\<lambda>q. Inr []) s e n"
  by (auto simp: get_patient_tests_def get_patient_tests_try_def split: sum.splits)

theorem get_patient_tests_degrades_to_empty_witness:
  "build_query None (Some \<lparr>year = 2024, month = 12, day = 31\<rparr>) None = Inl AttributeError \<and>
   get_patient_tests (\<lambda>q. Inr [ascii ''row'']) None (Some \<lparr>year = 2024, month = 12, day = 31\<rparr>) None = Inr [] \<and>
   build_query (Some \<lparr>year = 2024, month = 1, day = 1\<rparr>) (Some \<lparr>year = 2024, month = 12, day = 31\<rparr>)
     (Some [Some (ascii ''WBC''), None]) = Inl TypeError \<and>
   get_patient_tests (\<lambda>q. Inr [ascii ''row'']) (Some \<lparr>year = 2024, month = 1, day = 1\<rparr>)
     (Some \<lparr>year = 2024, month = 12, day = 31\<rparr>) (Some [Some (ascii ''WBC''), None]) = Inr [] \<and>
   build_query (Some \<lparr>year = 2024, month = 1, day = 1\<rparr>) (Some \<lparr>year = 2024, month = 12, day = 31\<rparr>) None =
     Inr (query_range \<lparr>year = 2024, month = 1, day = 1\<rparr> \<lparr>year = 2024, month = 12, day = 31\<rparr> @
          ascii '' ORDER BY time DESC'') \<and>
   get_patient_tests (\<lambda>q. (Inl QueryError :: exn + ustr list))
     (Some \<lparr>year = 2024, month = 1, day = 1\<rparr>) (Some \<lparr>year = 2024, month = 12, day = 31\<rparr>) None = Inr [] \<and>
   get_patient_tests (\<lambda>q. (Inr [] :: exn + ustr list))
     (Some \<lparr>year = 2024, month = 1, day = 1\<rparr>) (Some \<lparr>year = 2024, month = 12, day = 31\<rparr>) None = Inr []"
proof -
  note t = get_patient_tests_degrades_to_empty
  have h1: "build_query None (Some \<lparr>year = 2024, month = 12, day = 31\<rparr>) None = Inl AttributeError"
    by (simp add: build_query_def date_of_def)
  note 1 = t [THEN conjunct1, rule_format, OF h1, of "\<lambda>q. Inr [ascii ''row'']"]
  have h2: "build_query (Some \<lparr>year = 2024, month = 1, day = 1\<rparr>) (Some \<lparr>year = 2024, month = 12, day = 31\<rparr>)
     (Some [Some (ascii ''WBC''), None]) = Inl TypeError"
    by (simp add: build_query_def date_of_def)
  note 2 = t [THEN conjunct1, rule_format, OF h2, of "\<lambda>q. Inr [ascii ''row'']"]
  have h3: "build_query (Some \<lparr>year = 2024, month = 1, day = 1\<rparr>) (Some \<lparr>year = 2024, month = 12, day = 31\<rparr>) None =
     Inr (query_range \<lparr>year = 2024, month = 1, day = 1\<rparr> \<lparr>year = 2024, month = 12, day = 31\<rparr> @
          ascii '' ORDER BY time DESC'')"
    by (simp add: build_query_def date_of_def)
  have 3: "get_patient_tests (\<lambda>q. (Inl QueryError :: exn + ustr list))
     (Some \<lparr>year = 2024, month = 1, day = 1\<rparr>) (Some \<lparr>year = 2024, month = 12, day = 31\<rparr>) None = Inr []"
    by (rule t [THEN conjunct2, THEN conjunct1, rule_format, OF h3]) simp
  have 4: "get_patient_tests (\<lambda>q. (Inr [] :: exn + ustr list))
     (Some \<lparr>year = 2024, month = 1, day = 1\<rparr>) (Some \<lparr>year = 2024, month = 12, day = 31\<rparr>) None = Inr []"
    by (rule t [THEN conjunct2, THEN conjunct2, THEN conjunct1, rule_format, OF h3]) simp
  show ?thesis using h1 1 h2 2 h3 3 4 by simp
qed

end
